theory Spec2Isabelle
  imports Complex_Main
begin

section \<open>The XTTS v2 backend server (server.py)\<close>

text \<open>
  The server is a FastAPI application with four endpoints. Its handlers read three
  module-level globals, ask the operating system whether a file exists and whether the
  output directory can be created, draw a fresh file name, and call the speech model.
  The model and the operating system are parameters of the embedding (the record
  \<open>env\<close>); an exception they raise is the value \<open>Some x\<close>, where \<open>x\<close> records the
  class of the exception as far as the \<open>except\<close> clauses of the handlers tell
  classes apart. Every handler returns its outcome (the HTTP reply, or the exception
  that leaves it uncaught), the list of keyword dictionaries it passed to
  \<open>tts.tts_to_file\<close>, and the module globals as they are when it returns.

  The numeric controls are Python floats that the server only stores, compares with
  nothing and forwards: they are modelled as \<open>real\<close>, the literals read as decimals.
  The \<open>print\<close> statements are console output and are left out.
\<close>

subsection \<open>Python values\<close>

datatype pyval = PyNone | PyStr string | PyFloat real | PyInt int

type_synonym kwargs = "(string \<times> pyval) list"

datatype json = JStr string | JNum real | JList "json list" | JObj "(string \<times> json) list"

definition opt_float :: "real option \<Rightarrow> pyval" where
  "opt_float v = (case v of None \<Rightarrow> PyNone | Some x \<Rightarrow> PyFloat x)"

definition opt_int :: "int option \<Rightarrow> pyval" where
  "opt_int v = (case v of None \<Rightarrow> PyNone | Some n \<Rightarrow> PyInt n)"

text \<open>
  \<open>x if x else d\<close> on an optional string: \<open>None\<close> and the empty string are both
  falsy in Python.
\<close>

definition if_else :: "string option \<Rightarrow> string \<Rightarrow> string" where
  "if_else x d = (case x of None \<Rightarrow> d | Some s \<Rightarrow> if s = [] then d else s)"

text \<open>
  \<open>repr\<close> of a string and of a list of strings, as the f-string of the unknown-emotion
  reply prints \<open>list(EMOTION_SETTINGS.keys())\<close>. Bytes from 0x80 up (the UTF-8 of a
  printable non-ASCII character) are kept as they are.
\<close>

definition hex_digit :: "nat \<Rightarrow> char" where
  "hex_digit n = ''0123456789abcdef'' ! (n mod 16)"

definition repr_char :: "char \<Rightarrow> char \<Rightarrow> string" where
  "repr_char q c =
    (if c = q \<or> c = CHR 0x5C then [CHR 0x5C, c]
     else if c = CHR 0x09 then [CHR 0x5C, CHR ''t'']
     else if c = CHR 0x0A then [CHR 0x5C, CHR ''n'']
     else if c = CHR 0x0D then [CHR 0x5C, CHR ''r'']
     else if (of_char c :: nat) < 32 \<or> (of_char c :: nat) = 127
       then [CHR 0x5C, CHR ''x'', hex_digit (of_char c div 16), hex_digit (of_char c)]
     else [c])"

definition repr_str :: "string \<Rightarrow> string" where
  "repr_str s =
    (let q = (if CHR 0x27 \<in> set s \<and> CHR 0x22 \<notin> set s then CHR 0x22 else CHR 0x27)
     in [q] @ concat (map (repr_char q) s) @ [q])"

fun join :: "string \<Rightarrow> string list \<Rightarrow> string" where
  "join sep [] = []"
| "join sep [x] = x"
| "join sep (x # y # ys) = x @ sep @ join sep (y # ys)"

definition repr_str_list :: "string list \<Rightarrow> string" where
  "repr_str_list xs = ''['' @ join '', '' (map repr_str xs) @ '']''"

text \<open>\<open>os.path.basename\<close> on a POSIX path: what follows the last slash.\<close>

definition basename :: "string \<Rightarrow> string" where
  "basename p = rev (takeWhile (\<lambda>c. c \<noteq> CHR ''/'') (rev p))"

subsection \<open>Request models\<close>

text \<open>
  \<open>class TTSRequest(BaseModel)\<close> and \<open>class EmotionPreset(BaseModel)\<close>. A field
  declared \<open>Optional\<close> holds \<open>None\<close> when the caller sends an explicit null.
\<close>

record TTSRequest =
  tts_text :: string
  tts_speaker_wav :: "string option"
  tts_language :: string
  speed :: "real option"
  temperature :: "real option"
  length_penalty :: "real option"
  repetition_penalty :: "real option"
  top_k :: "int option"
  top_p :: "real option"

record EmotionPreset =
  ep_text :: string
  emotion :: string
  ep_speaker_wav :: "string option"
  ep_language :: string

text \<open>
  The JSON body before pydantic builds the model: each key is either absent from the
  body (\<open>None\<close>) or given with a value of the declared type. Building the model
  fills every absent key with the default of the class declaration; \<open>text\<close> has no
  default and is required.
\<close>

record TTSBody =
  b_text :: "string option"
  b_speaker_wav :: "string option option"
  b_language :: "string option"
  b_speed :: "real option option"
  b_temperature :: "real option option"
  b_length_penalty :: "real option option"
  b_repetition_penalty :: "real option option"
  b_top_k :: "int option option"
  b_top_p :: "real option option"

datatype validation_error = Missing string

definition dflt :: "'a option \<Rightarrow> 'a \<Rightarrow> 'a" where
  "dflt given d = (case given of None \<Rightarrow> d | Some v \<Rightarrow> v)"

definition TTSRequest_of_body :: "TTSBody \<Rightarrow> validation_error + TTSRequest" where
  "TTSRequest_of_body b =
    (case b_text b of
       None \<Rightarrow> Inl (Missing ''text'')
     | Some t \<Rightarrow> Inr
        \<lparr>tts_text = t,
         tts_speaker_wav = dflt (b_speaker_wav b) None,
         tts_language = dflt (b_language b) ''en'',
         speed = dflt (b_speed b) (Some 1.0),
         temperature = dflt (b_temperature b) (Some 0.75),
         length_penalty = dflt (b_length_penalty b) (Some 1.0),
         repetition_penalty = dflt (b_repetition_penalty b) (Some 5.0),
         top_k = dflt (b_top_k b) (Some 50),
         top_p = dflt (b_top_p b) (Some 0.85)\<rparr>)"

subsection \<open>Module globals\<close>

record emotion_config =
  cfg_temperature :: real
  cfg_speed :: real
  cfg_top_p :: real
  cfg_prefix :: string

definition DEFAULT_SPEAKER_WAV :: string where
  "DEFAULT_SPEAKER_WAV = ''test.wav''"

definition EMOTION_SETTINGS :: "(string \<times> emotion_config) list" where
  "EMOTION_SETTINGS =
    [(''happy'',
        \<lparr>cfg_temperature = 0.85, cfg_speed = 1.1, cfg_top_p = 0.9,
         cfg_prefix = ''**excited** ''\<rparr>),
     (''sad'',
        \<lparr>cfg_temperature = 0.65, cfg_speed = 0.9, cfg_top_p = 0.75,
         cfg_prefix = ''**sadly** ''\<rparr>),
     (''angry'',
        \<lparr>cfg_temperature = 0.95, cfg_speed = 1.15, cfg_top_p = 0.95,
         cfg_prefix = ''**angrily** ''\<rparr>),
     (''excited'',
        \<lparr>cfg_temperature = 0.95, cfg_speed = 1.2, cfg_top_p = 0.95,
         cfg_prefix = ''**very excited** ''\<rparr>),
     (''calm'',
        \<lparr>cfg_temperature = 0.6, cfg_speed = 0.95, cfg_top_p = 0.7,
         cfg_prefix = ''**calmly** ''\<rparr>),
     (''whisper'',
        \<lparr>cfg_temperature = 0.5, cfg_speed = 0.85, cfg_top_p = 0.6,
         cfg_prefix = ''**whispers** ''\<rparr>)]"

text \<open>
  The globals a handler can see. A Python module global is mutable, so the handlers
  take the globals as they find them and return them as they leave them.
  \<open>startup\<close> is the state after the module has been loaded (the model included);
  its argument is \<open>torch.cuda.is_available()\<close>.
\<close>

record globals =
  g_device :: string
  g_DEFAULT_SPEAKER_WAV :: string
  g_EMOTION_SETTINGS :: "(string \<times> emotion_config) list"

definition startup :: "bool \<Rightarrow> globals" where
  "startup cuda =
    \<lparr>g_device = (if cuda then ''cuda'' else ''cpu''),
     g_DEFAULT_SPEAKER_WAV = DEFAULT_SPEAKER_WAV,
     g_EMOTION_SETTINGS = EMOTION_SETTINGS\<rparr>"

subsection \<open>The environment and the replies\<close>

text \<open>
  An exception raised by \<open>os.makedirs\<close> or by \<open>tts.tts_to_file\<close>: an
  \<open>HTTPException\<close> with its status code and detail, any other exception of class
  \<open>Exception\<close> with its \<open>str(e)\<close>, or an exception outside \<open>Exception\<close>
  (\<open>KeyboardInterrupt\<close>, \<open>SystemExit\<close>) with the name of its class.
\<close>

datatype exn =
    PyHTTPException nat string
  | PyException string
  | PyBaseException string

record env =
  path_exists :: "string \<Rightarrow> bool"
  makedirs :: "string \<Rightarrow> exn option"
  uuid4_hex :: string
  tts_to_file :: "kwargs \<Rightarrow> exn option"

text \<open>
  The outcome of a handler: a response, an \<open>HTTPException\<close> (which FastAPI sends
  with that status and detail), or \<open>Unhandled\<close>, an exception that no clause of the
  handler catches.
\<close>

datatype response =
    FileResponse string string string
  | HTTPException nat string
  | JSON json
  | Unhandled string

text \<open>
  The two \<open>except\<close> clauses that close \<open>speak\<close> and \<open>speak_with_emotion\<close>:
  \<open>except HTTPException: raise\<close>, then
  \<open>except Exception as e: raise HTTPException(status_code=500, detail=str(e))\<close>.
  The \<open>HTTPException\<close> a handler raises itself passes the first clause as it is.
\<close>

definition except_clauses :: "exn \<Rightarrow> response" where
  "except_clauses x =
    (case x of
       PyHTTPException c d \<Rightarrow> HTTPException c d
     | PyException msg \<Rightarrow> HTTPException 500 msg
     | PyBaseException msg \<Rightarrow> Unhandled msg)"

record outcome =
  reply :: response
  calls :: "kwargs list"
  after :: globals

subsection \<open>Endpoints\<close>

definition config_json :: "emotion_config \<Rightarrow> json" where
  "config_json c =
    JObj [(''temperature'', JNum (cfg_temperature c)),
          (''speed'', JNum (cfg_speed c)),
          (''top_p'', JNum (cfg_top_p c)),
          (''prefix'', JStr (cfg_prefix c))]"

definition root :: "globals \<Rightarrow> outcome" where
  "root g =
    \<lparr>reply = JSON (JObj
       [(''message'', JStr ''XTTS v2 TTS API is running!''),
        (''device'', JStr (g_device g)),
        (''default_speaker'', JStr (g_DEFAULT_SPEAKER_WAV g)),
        (''available_emotions'', JList (map (JStr \<circ> fst) (g_EMOTION_SETTINGS g))),
        (''voice_controls'', JObj
           [(''speed'', JStr ''0.5 to 2.0 (default: 1.0)''),
            (''temperature'', JStr ''0.1 to 1.0 (default: 0.75)''),
            (''top_p'', JStr ''0.1 to 1.0 (default: 0.85)'')])]),
     calls = [],
     after = g\<rparr>"

definition speak :: "env \<Rightarrow> globals \<Rightarrow> TTSRequest \<Rightarrow> outcome" where
  "speak e g req =
    (case makedirs e ''output'' of
       Some x \<Rightarrow> \<lparr>reply = except_clauses x, calls = [], after = g\<rparr>
     | None \<Rightarrow>
        (let filename = ''output/'' @ uuid4_hex e @ ''.wav'';
             speaker_file = if_else (tts_speaker_wav req) (g_DEFAULT_SPEAKER_WAV g)
         in if \<not> path_exists e speaker_file
            then \<lparr>reply = HTTPException 400 (''Speaker file not found: '' @ speaker_file),
                  calls = [], after = g\<rparr>
            else
              (let kw = [(''text'', PyStr (tts_text req)),
                         (''speaker_wav'', PyStr speaker_file),
                         (''language'', PyStr (tts_language req)),
                         (''file_path'', PyStr filename),
                         (''speed'', opt_float (speed req)),
                         (''temperature'', opt_float (temperature req)),
                         (''length_penalty'', opt_float (length_penalty req)),
                         (''repetition_penalty'', opt_float (repetition_penalty req)),
                         (''top_k'', opt_int (top_k req)),
                         (''top_p'', opt_float (top_p req))]
               in case tts_to_file e kw of
                    Some x \<Rightarrow> \<lparr>reply = except_clauses x, calls = [kw], after = g\<rparr>
                  | None \<Rightarrow>
                      \<lparr>reply = FileResponse filename (basename filename) ''audio/wav'',
                       calls = [kw], after = g\<rparr>)))"

definition speak_with_emotion :: "env \<Rightarrow> globals \<Rightarrow> EmotionPreset \<Rightarrow> outcome" where
  "speak_with_emotion e g req =
    (case map_of (g_EMOTION_SETTINGS g) (emotion req) of
       None \<Rightarrow>
        \<lparr>reply = HTTPException 400
           (''Unknown emotion. Available: ''
              @ repr_str_list (map fst (g_EMOTION_SETTINGS g))),
         calls = [], after = g\<rparr>
     | Some emotion_config \<Rightarrow>
        (case makedirs e ''output'' of
           Some x \<Rightarrow> \<lparr>reply = except_clauses x, calls = [], after = g\<rparr>
         | None \<Rightarrow>
            (let filename = ''output/'' @ uuid4_hex e @ ''.wav'';
                 speaker_file = if_else (ep_speaker_wav req) (g_DEFAULT_SPEAKER_WAV g)
             in if \<not> path_exists e speaker_file
                then \<lparr>reply = HTTPException 400
                        (''Speaker file not found: '' @ speaker_file),
                      calls = [], after = g\<rparr>
                else
                  (let modified_text = cfg_prefix emotion_config @ ep_text req;
                       kw = [(''text'', PyStr modified_text),
                             (''speaker_wav'', PyStr speaker_file),
                             (''language'', PyStr (ep_language req)),
                             (''file_path'', PyStr filename),
                             (''speed'', PyFloat (cfg_speed emotion_config)),
                             (''temperature'', PyFloat (cfg_temperature emotion_config)),
                             (''top_p'', PyFloat (cfg_top_p emotion_config))]
                   in case tts_to_file e kw of
                        Some x \<Rightarrow>
                          \<lparr>reply = except_clauses x, calls = [kw], after = g\<rparr>
                      | None \<Rightarrow>
                          \<lparr>reply = FileResponse filename (basename filename) ''audio/wav'',
                           calls = [kw], after = g\<rparr>))))"

definition list_emotions :: "globals \<Rightarrow> outcome" where
  "list_emotions g =
    \<lparr>reply = JSON (JObj
       [(''available_emotions'', JList (map (JStr \<circ> fst) (g_EMOTION_SETTINGS g))),
        (''settings'',
           JObj (map (\<lambda>(k, c). (k, config_json c)) (g_EMOTION_SETTINGS g)))]),
     calls = [],
     after = g\<rparr>"

subsection \<open>The service as a sequence of requests\<close>

datatype operation =
    Root
  | Speak TTSRequest
  | SpeakEmotion EmotionPreset
  | ListEmotions

fun handle :: "env \<Rightarrow> globals \<Rightarrow> operation \<Rightarrow> outcome" where
  "handle e g Root = root g"
| "handle e g (Speak req) = speak e g req"
| "handle e g (SpeakEmotion req) = speak_with_emotion e g req"
| "handle e g ListEmotions = list_emotions g"

fun run :: "(env \<times> operation) list \<Rightarrow> globals \<Rightarrow> globals" where
  "run [] g = g"
| "run ((e, op) # rest) g = run rest (after (handle e g op))"

subsection \<open>Observations on replies and backend calls\<close>

definition client_error :: "response \<Rightarrow> bool" where
  "client_error r = (case r of HTTPException c _ \<Rightarrow> 400 \<le> c \<and> c < 500 | _ \<Rightarrow> False)"

definition server_error :: "response \<Rightarrow> bool" where
  "server_error r = (case r of HTTPException c _ \<Rightarrow> 500 \<le> c \<and> c < 600 | _ \<Rightarrow> False)"

definition detail :: "response \<Rightarrow> string" where
  "detail r = (case r of HTTPException _ d \<Rightarrow> d | _ \<Rightarrow> [])"

text \<open>\<open>contains d f\<close>: the text \<open>f\<close> occurs in \<open>d\<close>.\<close>

fun contains :: "string \<Rightarrow> string \<Rightarrow> bool" where
  "contains [] f = (f = [])"
| "contains (c # cs) f = (take (length f) (c # cs) = f \<or> contains cs f)"

text \<open>
  The documented ranges of the docstring of \<open>speak\<close> and of the reply of \<open>root\<close>:
  speed 0.5 to 2.0, temperature 0.1 to 1.0, top_p 0.1 to 1.0.
\<close>

definition in_range :: "real \<Rightarrow> real \<Rightarrow> pyval option \<Rightarrow> bool" where
  "in_range lo hi v = (case v of Some (PyFloat x) \<Rightarrow> lo \<le> x \<and> x \<le> hi | _ \<Rightarrow> False)"

definition params_in_range :: "kwargs \<Rightarrow> bool" where
  "params_in_range kw \<longleftrightarrow>
     in_range 0.5 2.0 (map_of kw ''speed'') \<and>
     in_range 0.1 1.0 (map_of kw ''temperature'') \<and>
     in_range 0.1 1.0 (map_of kw ''top_p'')"

definition request_in_range :: "TTSRequest \<Rightarrow> bool" where
  "request_in_range req \<longleftrightarrow>
     in_range 0.5 2.0 (Some (opt_float (speed req))) \<and>
     in_range 0.1 1.0 (Some (opt_float (temperature req))) \<and>
     in_range 0.1 1.0 (Some (opt_float (top_p req)))"

text \<open>
  What preset resolution decides of a backend call: the text and the six controls,
  whichever of them are passed.
\<close>

definition control_keys :: "string list" where
  "control_keys =
    [''speed'', ''temperature'', ''length_penalty'', ''repetition_penalty'', ''top_k'',
     ''top_p'']"

definition resolved :: "kwargs \<Rightarrow> pyval option \<times> kwargs" where
  "resolved kw = (map_of kw ''text'', filter (\<lambda>(k, v). k \<in> set control_keys) kw)"

subsection \<open>Concrete environments and requests\<close>

text \<open>
  Environments and requests at which the properties below are evaluated: a machine
  where \<open>test.wav\<close> and \<open>alice.wav\<close> exist and the model answers, one where the
  model raises, one where the output directory cannot be created, and requests with
  the defaults, with speed 3.0, with a null speed, with a missing speaker file and
  with an empty one.
\<close>

definition sample_env :: env where
  "sample_env =
    \<lparr>path_exists = (\<lambda>p. p = ''test.wav'' \<or> p = ''alice.wav''),
     makedirs = (\<lambda>_. None),
     uuid4_hex = ''0f8fad5bd9cb469fa16570867728950e'',
     tts_to_file = (\<lambda>_. None)\<rparr>"

definition other_env :: env where
  "other_env =
    \<lparr>path_exists = (\<lambda>p. p = ''alice.wav''),
     makedirs = (\<lambda>_. None),
     uuid4_hex = ''7c9e6679742540de944be07fc1f90ae7'',
     tts_to_file = (\<lambda>_. Some (PyException ''CUDA out of memory''))\<rparr>"

definition readonly_env :: env where
  "readonly_env =
    \<lparr>path_exists = (\<lambda>p. p = ''test.wav''),
     makedirs = (\<lambda>_. Some (PyException ''[Errno 30] Read-only file system'')),
     uuid4_hex = ''0f8fad5bd9cb469fa16570867728950e'',
     tts_to_file = (\<lambda>_. None)\<rparr>"

definition failing_env :: "exn \<Rightarrow> env" where
  "failing_env x =
    \<lparr>path_exists = (\<lambda>p. p = ''test.wav''),
     makedirs = (\<lambda>_. None),
     uuid4_hex = ''0f8fad5bd9cb469fa16570867728950e'',
     tts_to_file = (\<lambda>_. Some x)\<rparr>"

definition plain_request :: TTSRequest where
  "plain_request =
    \<lparr>tts_text = ''Hello'', tts_speaker_wav = None, tts_language = ''en'',
     speed = Some 1.0, temperature = Some 0.75, length_penalty = Some 1.0,
     repetition_penalty = Some 5.0, top_k = Some 50, top_p = Some 0.85\<rparr>"

definition whisper_hello :: EmotionPreset where
  "whisper_hello =
    \<lparr>ep_text = ''Hello'', emotion = ''whisper'', ep_speaker_wav = None,
     ep_language = ''en''\<rparr>"

definition only_text :: TTSBody where
  "only_text =
    \<lparr>b_text = Some ''Hello'', b_speaker_wav = None, b_language = None, b_speed = None,
     b_temperature = None, b_length_penalty = None, b_repetition_penalty = None,
     b_top_k = None, b_top_p = None\<rparr>"

definition null_speed_body :: TTSBody where
  "null_speed_body = only_text\<lparr>b_speed := Some None\<rparr>"

definition fast_request :: TTSRequest where
  "fast_request = plain_request\<lparr>speed := Some 3.0\<rparr>"

definition furious_missing :: EmotionPreset where
  "furious_missing =
    \<lparr>ep_text = ''Hello'', emotion = ''furious'', ep_speaker_wav = Some ''missing.wav'',
     ep_language = ''en''\<rparr>"

definition quiet_request :: TTSRequest where
  "quiet_request = plain_request\<lparr>tts_speaker_wav := Some ''missing.wav''\<rparr>"

definition empty_speaker_request :: TTSRequest where
  "empty_speaker_request = plain_request\<lparr>tts_speaker_wav := Some []\<rparr>"

section \<open>Properties\<close>

subsection \<open>No handler writes a global\<close>

lemma after_root: "after (root g) = g"
  by (simp add: root_def)

lemma after_list_emotions: "after (list_emotions g) = g"
  by (simp add: list_emotions_def)

lemma after_speak: "after (speak e g req) = g"
  by (simp add: speak_def Let_def split: option.split)

lemma after_speak_with_emotion: "after (speak_with_emotion e g req) = g"
  by (simp add: speak_with_emotion_def Let_def split: option.split)

lemma after_handle: "after (handle e g op) = g"
  by (cases op)
    (simp_all add: after_root after_list_emotions after_speak after_speak_with_emotion)

lemma run_same: "run ops g = g"
proof (induction ops arbitrary: g)
  case Nil
  show ?case by simp
next
  case (Cons x ops)
  obtain e op where x: "x = (e, op)" by (cases x)
  show ?case by (simp add: x after_handle Cons.IH)
qed

subsection \<open>Lookups in the preset table\<close>

lemma whisper_config:
  "map_of EMOTION_SETTINGS ''whisper'' =
     Some \<lparr>cfg_temperature = 0.5, cfg_speed = 0.85, cfg_top_p = 0.6,
           cfg_prefix = ''**whispers** ''\<rparr>"
  by (simp add: EMOTION_SETTINGS_def)

lemma preset_keys:
  "map fst EMOTION_SETTINGS = [''happy'', ''sad'', ''angry'', ''excited'', ''calm'', ''whisper'']"
  by (simp add: EMOTION_SETTINGS_def)

lemma unknown_tag: "t \<notin> set (map fst EMOTION_SETTINGS) \<Longrightarrow> map_of EMOTION_SETTINGS t = None"
  by (simp add: map_of_eq_None_iff)

lemma preset_in_range:
  assumes "map_of EMOTION_SETTINGS t = Some c"
  shows "0.5 \<le> cfg_speed c \<and> cfg_speed c \<le> 2.0 \<and>
         0.1 \<le> cfg_temperature c \<and> cfg_temperature c \<le> 1.0 \<and>
         0.1 \<le> cfg_top_p c \<and> cfg_top_p c \<le> 1.0"
  using assms by (auto simp: EMOTION_SETTINGS_def split: if_splits)

lemma contains_self: "contains f f"
  by (cases f) simp_all

lemma contains_append: "contains (p @ f) f"
  by (induction p) (simp_all add: contains_self)

subsection \<open>Emotion presets\<close>

lemma emotion_call_shape:
  assumes "k \<in> set (calls (speak_with_emotion e g req))"
  shows "\<exists>c. map_of (g_EMOTION_SETTINGS g) (emotion req) = Some c \<and>
           k = [(''text'', PyStr (cfg_prefix c @ ep_text req)),
                (''speaker_wav'', PyStr (if_else (ep_speaker_wav req) (g_DEFAULT_SPEAKER_WAV g))),
                (''language'', PyStr (ep_language req)),
                (''file_path'', PyStr (''output/'' @ uuid4_hex e @ ''.wav'')),
                (''speed'', PyFloat (cfg_speed c)),
                (''temperature'', PyFloat (cfg_temperature c)),
                (''top_p'', PyFloat (cfg_top_p c))]"
proof (cases "map_of (g_EMOTION_SETTINGS g) (emotion req)")
  case None
  with assms show ?thesis by (simp add: speak_with_emotion_def)
next
  case (Some c)
  with assms show ?thesis
    by (simp add: speak_with_emotion_def Let_def split: option.splits if_splits)
qed

lemma resolved_emotion_call:
  assumes "k \<in> set (calls (speak_with_emotion e g req))"
  shows "\<exists>c. map_of (g_EMOTION_SETTINGS g) (emotion req) = Some c \<and>
           resolved k =
             (Some (PyStr (cfg_prefix c @ ep_text req)),
              [(''speed'', PyFloat (cfg_speed c)),
               (''temperature'', PyFloat (cfg_temperature c)),
               (''top_p'', PyFloat (cfg_top_p c))])"
proof -
  from emotion_call_shape [OF assms] obtain c
    where c: "map_of (g_EMOTION_SETTINGS g) (emotion req) = Some c"
      and k: "k = [(''text'', PyStr (cfg_prefix c @ ep_text req)),
                (''speaker_wav'', PyStr (if_else (ep_speaker_wav req) (g_DEFAULT_SPEAKER_WAV g))),
                (''language'', PyStr (ep_language req)),
                (''file_path'', PyStr (''output/'' @ uuid4_hex e @ ''.wav'')),
                (''speed'', PyFloat (cfg_speed c)),
                (''temperature'', PyFloat (cfg_temperature c)),
                (''top_p'', PyFloat (cfg_top_p c))]"
    by blast
  have "resolved k =
             (Some (PyStr (cfg_prefix c @ ep_text req)),
              [(''speed'', PyFloat (cfg_speed c)),
               (''temperature'', PyFloat (cfg_temperature c)),
               (''top_p'', PyFloat (cfg_top_p c))])"
    unfolding k by (simp add: resolved_def control_keys_def)
  with c show ?thesis by blast
qed

text \<open>
  C1. A request to \<open>/speak_emotion\<close> with text \<open>Hello\<close> and emotion \<open>whisper\<close>
  passes to the backend temperature 0.5, speed 0.85 and top_p 0.6, and the text
  \<open>**whispers** Hello\<close>, the preset's prefix followed by the base text. This holds
  after any sequence of earlier requests: the handler makes no other backend call,
  and it makes this one whenever the output directory can be created and the
  speaker file exists.
\<close>

theorem whisper_hello_call:
  assumes "ep_text req = ''Hello''" and "emotion req = ''whisper''"
  shows "let K = [(''text'', PyStr ''**whispers** Hello''),
                  (''speaker_wav'', PyStr (if_else (ep_speaker_wav req) DEFAULT_SPEAKER_WAV)),
                  (''language'', PyStr (ep_language req)),
                  (''file_path'', PyStr (''output/'' @ uuid4_hex e @ ''.wav'')),
                  (''speed'', PyFloat 0.85),
                  (''temperature'', PyFloat 0.5),
                  (''top_p'', PyFloat 0.6)];
             out = speak_with_emotion e (run ops (startup cuda)) req
         in set (calls out) \<subseteq> {K} \<and>
            (makedirs e ''output'' = None \<and>
             path_exists e (if_else (ep_speaker_wav req) DEFAULT_SPEAKER_WAV)
               \<longrightarrow> calls out = [K])"
  using assms
  by (simp add: run_same startup_def speak_with_emotion_def whisper_config Let_def
      split: option.split)

theorem whisper_hello_call_witness:
  "ep_text whisper_hello = ''Hello'' \<and> emotion whisper_hello = ''whisper'' \<and>
   makedirs sample_env ''output'' = None \<and> path_exists sample_env ''test.wav'' \<and>
   calls (speak_with_emotion sample_env (startup False) whisper_hello) =
     [[(''text'', PyStr ''**whispers** Hello''),
       (''speaker_wav'', PyStr ''test.wav''),
       (''language'', PyStr ''en''),
       (''file_path'', PyStr ''output/0f8fad5bd9cb469fa16570867728950e.wav''),
       (''speed'', PyFloat 0.85),
       (''temperature'', PyFloat 0.5),
       (''top_p'', PyFloat 0.6)]]"
  using whisper_hello_call [of whisper_hello sample_env "[]" False]
  by (simp add: whisper_hello_def sample_env_def if_else_def DEFAULT_SPEAKER_WAV_def Let_def)

text \<open>
  C3. A request to \<open>/speak_emotion\<close> whose emotion tag is not a key of the preset
  table (\<open>furious\<close>, say) is answered with HTTP 400, a client error whose detail
  lists the available tags, and the backend is not called.
\<close>

theorem unknown_emotion_rejected:
  assumes "emotion req \<notin> set (map fst EMOTION_SETTINGS)"
  shows "reply (speak_with_emotion e (run ops (startup cuda)) req) =
           HTTPException 400
             (''Unknown emotion. Available: '' @ repr_str_list (map fst EMOTION_SETTINGS)) \<and>
         client_error (reply (speak_with_emotion e (run ops (startup cuda)) req)) \<and>
         calls (speak_with_emotion e (run ops (startup cuda)) req) = []"
  using unknown_tag [OF assms]
  by (simp add: run_same startup_def speak_with_emotion_def client_error_def)

theorem unknown_emotion_rejected_witness:
  "''furious'' \<notin> set (map fst EMOTION_SETTINGS) \<and>
   client_error (reply (speak_with_emotion sample_env (startup False)
      (whisper_hello\<lparr>emotion := ''furious''\<rparr>))) \<and>
   calls (speak_with_emotion sample_env (startup False)
      (whisper_hello\<lparr>emotion := ''furious''\<rparr>)) = []"
  using unknown_emotion_rejected
    [of "whisper_hello\<lparr>emotion := ''furious''\<rparr>" sample_env "[]" False]
  by (simp add: preset_keys client_error_def)

text \<open>
  C5. Preset resolution depends on the tag and the base text alone. Two requests to
  \<open>/speak_emotion\<close> with the same tag and the same text, made in any two
  environments, after any two histories and with any speaker and language, pass the
  same text and the same controls to the backend.
\<close>

theorem preset_resolution_deterministic:
  assumes "emotion r1 = emotion r2" and "ep_text r1 = ep_text r2"
    and "k1 \<in> set (calls (speak_with_emotion e1 (run ops1 (startup c1)) r1))"
    and "k2 \<in> set (calls (speak_with_emotion e2 (run ops2 (startup c2)) r2))"
  shows "resolved k1 = resolved k2"
proof -
  have g: "g_EMOTION_SETTINGS (run ops1 (startup c1)) = g_EMOTION_SETTINGS (run ops2 (startup c2))"
    by (simp add: run_same startup_def)
  from resolved_emotion_call [OF assms(3)] resolved_emotion_call [OF assms(4)]
  show ?thesis
    using assms(1,2) g by auto
qed

theorem preset_resolution_deterministic_witness:
  "emotion whisper_hello =
     emotion (whisper_hello\<lparr>ep_speaker_wav := Some ''alice.wav'', ep_language := ''fr''\<rparr>) \<and>
   ep_text whisper_hello =
     ep_text (whisper_hello\<lparr>ep_speaker_wav := Some ''alice.wav'', ep_language := ''fr''\<rparr>) \<and>
   [(''text'', PyStr ''**whispers** Hello''),
    (''speaker_wav'', PyStr ''test.wav''),
    (''language'', PyStr ''en''),
    (''file_path'', PyStr ''output/0f8fad5bd9cb469fa16570867728950e.wav''),
    (''speed'', PyFloat 0.85),
    (''temperature'', PyFloat 0.5),
    (''top_p'', PyFloat 0.6)]
     \<in> set (calls (speak_with_emotion sample_env (startup False) whisper_hello)) \<and>
   [(''text'', PyStr ''**whispers** Hello''),
    (''speaker_wav'', PyStr ''alice.wav''),
    (''language'', PyStr ''fr''),
    (''file_path'', PyStr ''output/7c9e6679742540de944be07fc1f90ae7.wav''),
    (''speed'', PyFloat 0.85),
    (''temperature'', PyFloat 0.5),
    (''top_p'', PyFloat 0.6)]
     \<in> set (calls (speak_with_emotion other_env (startup True)
          (whisper_hello\<lparr>ep_speaker_wav := Some ''alice.wav'', ep_language := ''fr''\<rparr>))) \<and>
   resolved
     [(''text'', PyStr ''**whispers** Hello''),
      (''speaker_wav'', PyStr ''test.wav''),
      (''language'', PyStr ''en''),
      (''file_path'', PyStr ''output/0f8fad5bd9cb469fa16570867728950e.wav''),
      (''speed'', PyFloat 0.85),
      (''temperature'', PyFloat 0.5),
      (''top_p'', PyFloat 0.6)] =
   resolved
     [(''text'', PyStr ''**whispers** Hello''),
      (''speaker_wav'', PyStr ''alice.wav''),
      (''language'', PyStr ''fr''),
      (''file_path'', PyStr ''output/7c9e6679742540de944be07fc1f90ae7.wav''),
      (''speed'', PyFloat 0.85),
      (''temperature'', PyFloat 0.5),
      (''top_p'', PyFloat 0.6)]"
  (is "?A \<and> ?B \<and> ?K1 \<in> set ?C1 \<and> ?K2 \<in> set ?C2 \<and> ?R")
proof -
  have a: ?A and b: ?B
    by simp_all
  have c1: "?C1 = [?K1]"
    by (simp add: speak_with_emotion_def startup_def whisper_config whisper_hello_def
        sample_env_def if_else_def DEFAULT_SPEAKER_WAV_def Let_def)
  have c2: "?C2 = [?K2]"
    by (simp add: speak_with_emotion_def startup_def whisper_config whisper_hello_def
        other_env_def if_else_def DEFAULT_SPEAKER_WAV_def Let_def)
  have m1: "?K1 \<in> set (calls (speak_with_emotion sample_env (run [] (startup False))
        whisper_hello))"
    by (simp only: run.simps c1 list.set insertI1)
  have m2: "?K2 \<in> set (calls (speak_with_emotion other_env (run [] (startup True))
        (whisper_hello\<lparr>ep_speaker_wav := Some ''alice.wav'', ep_language := ''fr''\<rparr>)))"
    by (simp only: run.simps c2 list.set insertI1)
  have r: ?R
    by (rule preset_resolution_deterministic [OF a b m1 m2])
  have k1: "?K1 \<in> set ?C1" and k2: "?K2 \<in> set ?C2"
    by (simp_all only: c1 c2 list.set insertI1)
  from a b k1 k2 r show ?thesis
    by (intro conjI)
qed

subsection \<open>The backend call of \<open>/speak\<close>\<close>

lemma speak_call_shape:
  assumes "k \<in> set (calls (speak e g req))"
  shows "k = [(''text'', PyStr (tts_text req)),
              (''speaker_wav'', PyStr (if_else (tts_speaker_wav req) (g_DEFAULT_SPEAKER_WAV g))),
              (''language'', PyStr (tts_language req)),
              (''file_path'', PyStr (''output/'' @ uuid4_hex e @ ''.wav'')),
              (''speed'', opt_float (speed req)),
              (''temperature'', opt_float (temperature req)),
              (''length_penalty'', opt_float (length_penalty req)),
              (''repetition_penalty'', opt_float (repetition_penalty req)),
              (''top_k'', opt_int (top_k req)),
              (''top_p'', opt_float (top_p req))]"
  using assms
  by (simp add: speak_def Let_def split: option.splits if_splits)

lemma startup_settings: "g_EMOTION_SETTINGS (run ops (startup cuda)) = EMOTION_SETTINGS"
  by (simp add: run_same startup_def)

lemma startup_speaker: "g_DEFAULT_SPEAKER_WAV (run ops (startup cuda)) = DEFAULT_SPEAKER_WAV"
  by (simp add: run_same startup_def)

subsection \<open>Missing speaker files\<close>

lemma missing_speaker_speak:
  assumes "\<not> path_exists e (if_else (tts_speaker_wav r) (g_DEFAULT_SPEAKER_WAV g))"
  shows "calls (speak e g r) = []"
    and "makedirs e ''output'' = None \<Longrightarrow>
         reply (speak e g r) =
           HTTPException 400 (''Speaker file not found: ''
              @ if_else (tts_speaker_wav r) (g_DEFAULT_SPEAKER_WAV g))"
  using assms by (simp_all add: speak_def Let_def split: option.split)

lemma missing_speaker_emotion:
  assumes "\<not> path_exists e (if_else (ep_speaker_wav p) (g_DEFAULT_SPEAKER_WAV g))"
  shows "calls (speak_with_emotion e g p) = []"
    and "makedirs e ''output'' = None \<Longrightarrow>
         map_of (g_EMOTION_SETTINGS g) (emotion p) = Some c \<Longrightarrow>
         reply (speak_with_emotion e g p) =
           HTTPException 400 (''Speaker file not found: ''
              @ if_else (ep_speaker_wav p) (g_DEFAULT_SPEAKER_WAV g))"
  using assms by (simp_all add: speak_with_emotion_def Let_def split: option.split)

lemma known_tag: "t \<in> set (map fst EMOTION_SETTINGS) \<Longrightarrow> \<exists>c. map_of EMOTION_SETTINGS t = Some c"
  by (cases "map_of EMOTION_SETTINGS t") (simp_all add: map_of_eq_None_iff)

lemma not_found_reply:
  "client_error (HTTPException 400 (''Speaker file not found: '' @ f)) \<and>
   contains (detail (HTTPException 400 (''Speaker file not found: '' @ f))) f"
  using contains_append [of "''Speaker file not found: ''" f]
  by (simp add: client_error_def detail_def)

lemma furious_reply:
  "reply (speak_with_emotion sample_env (startup False) furious_missing) =
     HTTPException 400
       (''Unknown emotion. Available: '' @ repr_str_list (map fst EMOTION_SETTINGS))"
  by (simp add: speak_with_emotion_def startup_def furious_missing_def EMOTION_SETTINGS_def)

lemma unknown_detail_text:
  "''Unknown emotion. Available: '' @ repr_str_list (map fst EMOTION_SETTINGS) =
     ''Unknown emotion. Available: ['' @
       [CHR 0x27] @ ''happy'' @ [CHR 0x27] @ '', '' @
       [CHR 0x27] @ ''sad'' @ [CHR 0x27] @ '', '' @
       [CHR 0x27] @ ''angry'' @ [CHR 0x27] @ '', '' @
       [CHR 0x27] @ ''excited'' @ [CHR 0x27] @ '', '' @
       [CHR 0x27] @ ''calm'' @ [CHR 0x27] @ '', '' @
       [CHR 0x27] @ ''whisper'' @ [CHR 0x27] @ '']''"
  by (simp add: preset_keys repr_str_list_def repr_str_def repr_char_def Let_def)

text \<open>
  C4, as the specification states it: every request whose resolved speaker file does
  not exist is answered with a client error that names the file. Two requests with the
  missing speaker file \<open>missing.wav\<close> are answered otherwise: on \<open>/speak_emotion\<close>
  with the unknown tag \<open>furious\<close> the reply is the unknown-emotion reply, which does
  not name the file, and on \<open>/speak\<close> where the output directory cannot be created
  the reply is HTTP 500.
\<close>

theorem missing_speaker_other_reply:
  "\<not> path_exists sample_env (if_else (ep_speaker_wav furious_missing) DEFAULT_SPEAKER_WAV) \<and>
   reply (speak_with_emotion sample_env (startup False) furious_missing) =
     HTTPException 400
       (''Unknown emotion. Available: '' @ repr_str_list (map fst EMOTION_SETTINGS)) \<and>
   \<not> contains (detail (reply (speak_with_emotion sample_env (startup False) furious_missing)))
       ''missing.wav'' \<and>
   \<not> path_exists readonly_env (if_else (tts_speaker_wav quiet_request) DEFAULT_SPEAKER_WAV) \<and>
   reply (speak readonly_env (startup False) quiet_request) =
     HTTPException 500 ''[Errno 30] Read-only file system'' \<and>
   \<not> client_error (reply (speak readonly_env (startup False) quiet_request))"
proof -
  have a: "\<not> path_exists sample_env (if_else (ep_speaker_wav furious_missing) DEFAULT_SPEAKER_WAV)"
    by (simp add: sample_env_def furious_missing_def if_else_def)
  have b: "\<not> contains (detail (reply (speak_with_emotion sample_env (startup False) furious_missing)))
       ''missing.wav''"
    unfolding furious_reply detail_def response.case unknown_detail_text by simp
  have c: "\<not> path_exists readonly_env (if_else (tts_speaker_wav quiet_request) DEFAULT_SPEAKER_WAV)"
    by (simp add: readonly_env_def quiet_request_def if_else_def)
  have d: "reply (speak readonly_env (startup False) quiet_request) =
     HTTPException 500 ''[Errno 30] Read-only file system''"
    by (simp add: speak_def readonly_env_def except_clauses_def)
  have e: "\<not> client_error (reply (speak readonly_env (startup False) quiet_request))"
    unfolding d by (simp add: client_error_def)
  from a furious_reply b c d e show ?thesis
    by (intro conjI)
qed

text \<open>
  C4, amended. When the resolved speaker file does not exist, neither \<open>/speak\<close> nor
  \<open>/speak_emotion\<close> calls the backend. If moreover the output directory can be
  created and, on \<open>/speak_emotion\<close>, the emotion tag is a key of the preset table,
  the reply is HTTP 400 with the detail \<open>Speaker file not found: \<close> followed by the
  file name.
\<close>

theorem missing_speaker_rejected:
  "(\<not> path_exists e (if_else (tts_speaker_wav r) DEFAULT_SPEAKER_WAV) \<longrightarrow>
      calls (speak e (run ops (startup cuda)) r) = [] \<and>
      (makedirs e ''output'' = None \<longrightarrow>
         reply (speak e (run ops (startup cuda)) r) =
           HTTPException 400 (''Speaker file not found: ''
              @ if_else (tts_speaker_wav r) DEFAULT_SPEAKER_WAV) \<and>
         client_error (reply (speak e (run ops (startup cuda)) r)) \<and>
         contains (detail (reply (speak e (run ops (startup cuda)) r)))
           (if_else (tts_speaker_wav r) DEFAULT_SPEAKER_WAV))) \<and>
   (\<not> path_exists e (if_else (ep_speaker_wav p) DEFAULT_SPEAKER_WAV) \<longrightarrow>
      calls (speak_with_emotion e (run ops (startup cuda)) p) = [] \<and>
      (makedirs e ''output'' = None \<and> emotion p \<in> set (map fst EMOTION_SETTINGS) \<longrightarrow>
         reply (speak_with_emotion e (run ops (startup cuda)) p) =
           HTTPException 400 (''Speaker file not found: ''
              @ if_else (ep_speaker_wav p) DEFAULT_SPEAKER_WAV) \<and>
         client_error (reply (speak_with_emotion e (run ops (startup cuda)) p)) \<and>
         contains (detail (reply (speak_with_emotion e (run ops (startup cuda)) p)))
           (if_else (ep_speaker_wav p) DEFAULT_SPEAKER_WAV)))"
proof (intro conjI impI)
  let ?g = "run ops (startup cuda)"
  {
    assume m: "\<not> path_exists e (if_else (tts_speaker_wav r) DEFAULT_SPEAKER_WAV)"
    have m': "\<not> path_exists e (if_else (tts_speaker_wav r) (g_DEFAULT_SPEAKER_WAV ?g))"
      unfolding startup_speaker by (rule m)
    show "calls (speak e ?g r) = []"
      by (rule missing_speaker_speak(1) [OF m'])
    assume d: "makedirs e ''output'' = None"
    have rp: "reply (speak e ?g r) =
           HTTPException 400 (''Speaker file not found: ''
              @ if_else (tts_speaker_wav r) DEFAULT_SPEAKER_WAV)"
      using missing_speaker_speak(2) [OF m' d] by (simp only: startup_speaker)
    show "reply (speak e ?g r) =
           HTTPException 400 (''Speaker file not found: ''
              @ if_else (tts_speaker_wav r) DEFAULT_SPEAKER_WAV)"
      by (rule rp)
    show "client_error (reply (speak e ?g r))"
      unfolding rp using not_found_reply by blast
    show "contains (detail (reply (speak e ?g r)))
           (if_else (tts_speaker_wav r) DEFAULT_SPEAKER_WAV)"
      unfolding rp using not_found_reply by blast
  }
  {
    assume m: "\<not> path_exists e (if_else (ep_speaker_wav p) DEFAULT_SPEAKER_WAV)"
    have m': "\<not> path_exists e (if_else (ep_speaker_wav p) (g_DEFAULT_SPEAKER_WAV ?g))"
      unfolding startup_speaker by (rule m)
    show "calls (speak_with_emotion e ?g p) = []"
      by (rule missing_speaker_emotion(1) [OF m'])
    assume "makedirs e ''output'' = None \<and> emotion p \<in> set (map fst EMOTION_SETTINGS)"
    then have d: "makedirs e ''output'' = None"
      and t: "emotion p \<in> set (map fst EMOTION_SETTINGS)"
      by blast+
    from known_tag [OF t] obtain c where "map_of EMOTION_SETTINGS (emotion p) = Some c"
      by blast
    then have c: "map_of (g_EMOTION_SETTINGS ?g) (emotion p) = Some c"
      by (simp only: startup_settings)
    have rp: "reply (speak_with_emotion e ?g p) =
           HTTPException 400 (''Speaker file not found: ''
              @ if_else (ep_speaker_wav p) DEFAULT_SPEAKER_WAV)"
      using missing_speaker_emotion(2) [OF m' d c] by (simp only: startup_speaker)
    show "reply (speak_with_emotion e ?g p) =
           HTTPException 400 (''Speaker file not found: ''
              @ if_else (ep_speaker_wav p) DEFAULT_SPEAKER_WAV)"
      by (rule rp)
    show "client_error (reply (speak_with_emotion e ?g p))"
      unfolding rp using not_found_reply by blast
    show "contains (detail (reply (speak_with_emotion e ?g p)))
           (if_else (ep_speaker_wav p) DEFAULT_SPEAKER_WAV)"
      unfolding rp using not_found_reply by blast
  }
qed

theorem missing_speaker_rejected_witness:
  "\<not> path_exists sample_env (if_else (tts_speaker_wav quiet_request) DEFAULT_SPEAKER_WAV) \<and>
   makedirs sample_env ''output'' = None \<and>
   calls (speak sample_env (startup False) quiet_request) = [] \<and>
   reply (speak sample_env (startup False) quiet_request) =
     HTTPException 400 ''Speaker file not found: missing.wav'' \<and>
   \<not> path_exists sample_env
       (if_else (ep_speaker_wav (whisper_hello\<lparr>ep_speaker_wav := Some ''missing.wav''\<rparr>))
          DEFAULT_SPEAKER_WAV) \<and>
   emotion (whisper_hello\<lparr>ep_speaker_wav := Some ''missing.wav''\<rparr>)
      \<in> set (map fst EMOTION_SETTINGS) \<and>
   calls (speak_with_emotion sample_env (startup False)
      (whisper_hello\<lparr>ep_speaker_wav := Some ''missing.wav''\<rparr>)) = [] \<and>
   reply (speak_with_emotion sample_env (startup False)
      (whisper_hello\<lparr>ep_speaker_wav := Some ''missing.wav''\<rparr>)) =
     HTTPException 400 ''Speaker file not found: missing.wav''"
proof -
  let ?p = "whisper_hello\<lparr>ep_speaker_wav := Some ''missing.wav''\<rparr>"
  have f1: "if_else (tts_speaker_wav quiet_request) DEFAULT_SPEAKER_WAV = ''missing.wav''"
    by (simp add: quiet_request_def if_else_def)
  have f2: "if_else (ep_speaker_wav ?p) DEFAULT_SPEAKER_WAV = ''missing.wav''"
    by (simp add: if_else_def)
  have a: "\<not> path_exists sample_env ''missing.wav''"
    by (simp add: sample_env_def)
  have d: "makedirs sample_env ''output'' = None"
    by (simp add: sample_env_def)
  have t: "emotion ?p \<in> set (map fst EMOTION_SETTINGS)"
    by (simp add: whisper_hello_def preset_keys)
  from missing_speaker_rejected [of sample_env quiet_request "[]" False ?p]
  show ?thesis
    unfolding f1 f2 using a d t by simp
qed

subsection \<open>Failures of the operating system and of the backend\<close>

lemma speak_makedirs_raises:
  "makedirs e ''output'' = Some x \<Longrightarrow> reply (speak e g r) = except_clauses x"
  by (simp add: speak_def)

lemma emotion_makedirs_raises:
  "makedirs e ''output'' = Some x \<Longrightarrow> map_of (g_EMOTION_SETTINGS g) (emotion p) = Some c \<Longrightarrow>
     reply (speak_with_emotion e g p) = except_clauses x"
  by (simp add: speak_with_emotion_def)

lemma speak_backend_raises:
  assumes "k \<in> set (calls (speak e g r))" and "tts_to_file e k = Some x"
  shows "reply (speak e g r) = except_clauses x"
proof -
  have 1: "makedirs e ''output'' = None"
    using assms(1) by (cases "makedirs e ''output''") (simp_all add: speak_def)
  have 2: "path_exists e (if_else (tts_speaker_wav r) (g_DEFAULT_SPEAKER_WAV g))"
    using assms(1) 1 by (auto simp: speak_def Let_def split: if_splits)
  from assms(2) show ?thesis
    unfolding speak_call_shape [OF assms(1)]
    by (simp add: speak_def Let_def 1 2)
qed

lemma emotion_backend_raises:
  assumes "k \<in> set (calls (speak_with_emotion e g p))" and "tts_to_file e k = Some x"
  shows "reply (speak_with_emotion e g p) = except_clauses x"
proof -
  from emotion_call_shape [OF assms(1)] obtain c
    where c: "map_of (g_EMOTION_SETTINGS g) (emotion p) = Some c"
      and k: "k = [(''text'', PyStr (cfg_prefix c @ ep_text p)),
                (''speaker_wav'', PyStr (if_else (ep_speaker_wav p) (g_DEFAULT_SPEAKER_WAV g))),
                (''language'', PyStr (ep_language p)),
                (''file_path'', PyStr (''output/'' @ uuid4_hex e @ ''.wav'')),
                (''speed'', PyFloat (cfg_speed c)),
                (''temperature'', PyFloat (cfg_temperature c)),
                (''top_p'', PyFloat (cfg_top_p c))]"
    by blast
  have 1: "makedirs e ''output'' = None"
    using assms(1) c by (cases "makedirs e ''output''") (simp_all add: speak_with_emotion_def)
  have 2: "path_exists e (if_else (ep_speaker_wav p) (g_DEFAULT_SPEAKER_WAV g))"
    using assms(1) 1 c by (auto simp: speak_with_emotion_def Let_def split: if_splits)
  from assms(2) show ?thesis
    unfolding k by (simp add: speak_with_emotion_def Let_def 1 2 c)
qed

lemma except_clauses_cases:
  "(\<forall>msg. x = PyException msg \<longrightarrow>
      except_clauses x = HTTPException 500 msg \<and> server_error (except_clauses x)) \<and>
   (\<forall>c d. x = PyHTTPException c d \<longrightarrow> except_clauses x = HTTPException c d) \<and>
   (\<forall>n. x = PyBaseException n \<longrightarrow> except_clauses x = Unhandled n)"
  by (simp add: except_clauses_def server_error_def)

lemma plain_calls_failing:
  "calls (speak (failing_env x) (startup False) plain_request) =
     [[(''text'', PyStr ''Hello''),
       (''speaker_wav'', PyStr ''test.wav''),
       (''language'', PyStr ''en''),
       (''file_path'', PyStr ''output/0f8fad5bd9cb469fa16570867728950e.wav''),
       (''speed'', PyFloat 1.0),
       (''temperature'', PyFloat 0.75),
       (''length_penalty'', PyFloat 1.0),
       (''repetition_penalty'', PyFloat 5.0),
       (''top_k'', PyInt 50),
       (''top_p'', PyFloat 0.85)]]"
  by (simp add: speak_def startup_def plain_request_def failing_env_def
      if_else_def DEFAULT_SPEAKER_WAV_def opt_float_def opt_int_def Let_def)

lemma whisper_calls_failing:
  "calls (speak_with_emotion (failing_env x) (startup False) whisper_hello) =
     [[(''text'', PyStr ''**whispers** Hello''),
       (''speaker_wav'', PyStr ''test.wav''),
       (''language'', PyStr ''en''),
       (''file_path'', PyStr ''output/0f8fad5bd9cb469fa16570867728950e.wav''),
       (''speed'', PyFloat 0.85),
       (''temperature'', PyFloat 0.5),
       (''top_p'', PyFloat 0.6)]]"
  by (simp add: speak_with_emotion_def startup_def whisper_config whisper_hello_def
      failing_env_def if_else_def DEFAULT_SPEAKER_WAV_def Let_def)

lemma plain_reply_failing:
  "reply (speak (failing_env x) (startup False) plain_request) = except_clauses x"
  by (simp add: speak_def failing_env_def startup_def plain_request_def if_else_def
      DEFAULT_SPEAKER_WAV_def Let_def)

text \<open>
  C6, as the specification states it: a failure of the backend is answered with a
  5xx reply that carries only a generic message, and no internal exception crosses
  the transport boundary unmapped. The detail of the reply is the message of the
  exception the backend raised: two backend failures with two messages give two
  different details. An \<open>HTTPException\<close> raised by the backend call leaves the handler
  with its own status and detail, and a \<open>KeyboardInterrupt\<close> during the backend call
  is caught by neither \<open>except\<close> clause.
\<close>

theorem backend_message_in_reply:
  "reply (speak (failing_env (PyException ''CUDA out of memory'')) (startup False)
       plain_request) =
     HTTPException 500 ''CUDA out of memory'' \<and>
   reply (speak (failing_env (PyException ''No such file: /srv/tts/model.pth''))
       (startup False) plain_request) =
     HTTPException 500 ''No such file: /srv/tts/model.pth'' \<and>
   detail (reply (speak (failing_env (PyException ''CUDA out of memory'')) (startup False)
       plain_request)) \<noteq>
   detail (reply (speak (failing_env (PyException ''No such file: /srv/tts/model.pth''))
       (startup False) plain_request)) \<and>
   reply (speak (failing_env (PyHTTPException 404 ''voice not found'')) (startup False)
       plain_request) =
     HTTPException 404 ''voice not found'' \<and>
   \<not> server_error (reply (speak (failing_env (PyHTTPException 404 ''voice not found''))
       (startup False) plain_request)) \<and>
   reply (speak (failing_env (PyBaseException ''KeyboardInterrupt'')) (startup False)
       plain_request) =
     Unhandled ''KeyboardInterrupt''"
  unfolding plain_reply_failing
  by (simp add: except_clauses_def detail_def server_error_def)

text \<open>
  C6, amended. When creating the output directory or the backend call raises, inside
  \<open>/speak\<close> or \<open>/speak_emotion\<close>, an exception of class \<open>Exception\<close> that is not an
  \<open>HTTPException\<close>, the reply is HTTP 500 and its detail is the message \<open>str(e)\<close> of
  that exception. An \<open>HTTPException\<close> raised there leaves the handler unchanged, with
  its own status and detail. An exception outside class \<open>Exception\<close> is not caught by
  the handler.
\<close>

theorem internal_errors_reply_500:
  "(makedirs e ''output'' = Some x \<or>
    (k \<in> set (calls (speak e (run ops (startup cuda)) r)) \<and> tts_to_file e k = Some x) \<longrightarrow>
      (\<forall>msg. x = PyException msg \<longrightarrow>
         reply (speak e (run ops (startup cuda)) r) = HTTPException 500 msg \<and>
         server_error (reply (speak e (run ops (startup cuda)) r))) \<and>
      (\<forall>c d. x = PyHTTPException c d \<longrightarrow>
         reply (speak e (run ops (startup cuda)) r) = HTTPException c d) \<and>
      (\<forall>n. x = PyBaseException n \<longrightarrow>
         reply (speak e (run ops (startup cuda)) r) = Unhandled n)) \<and>
   ((makedirs e ''output'' = Some x \<and> emotion p \<in> set (map fst EMOTION_SETTINGS)) \<or>
    (k' \<in> set (calls (speak_with_emotion e (run ops (startup cuda)) p)) \<and>
     tts_to_file e k' = Some x) \<longrightarrow>
      (\<forall>msg. x = PyException msg \<longrightarrow>
         reply (speak_with_emotion e (run ops (startup cuda)) p) = HTTPException 500 msg \<and>
         server_error (reply (speak_with_emotion e (run ops (startup cuda)) p))) \<and>
      (\<forall>c d. x = PyHTTPException c d \<longrightarrow>
         reply (speak_with_emotion e (run ops (startup cuda)) p) = HTTPException c d) \<and>
      (\<forall>n. x = PyBaseException n \<longrightarrow>
         reply (speak_with_emotion e (run ops (startup cuda)) p) = Unhandled n))"
proof (intro conjI impI)
  let ?g = "run ops (startup cuda)"
  {
    assume "makedirs e ''output'' = Some x \<or>
      (k \<in> set (calls (speak e ?g r)) \<and> tts_to_file e k = Some x)"
    then have rp: "reply (speak e ?g r) = except_clauses x"
      using speak_makedirs_raises [of e x ?g r] speak_backend_raises [of k e ?g r x]
      by blast
    show "\<forall>msg. x = PyException msg \<longrightarrow>
         reply (speak e ?g r) = HTTPException 500 msg \<and> server_error (reply (speak e ?g r))"
      unfolding rp using except_clauses_cases [of x] by blast
    show "\<forall>c d. x = PyHTTPException c d \<longrightarrow> reply (speak e ?g r) = HTTPException c d"
      unfolding rp using except_clauses_cases [of x] by blast
    show "\<forall>n. x = PyBaseException n \<longrightarrow> reply (speak e ?g r) = Unhandled n"
      unfolding rp using except_clauses_cases [of x] by blast
  }
  {
    assume a: "(makedirs e ''output'' = Some x \<and> emotion p \<in> set (map fst EMOTION_SETTINGS)) \<or>
      (k' \<in> set (calls (speak_with_emotion e ?g p)) \<and> tts_to_file e k' = Some x)"
    have rp: "reply (speak_with_emotion e ?g p) = except_clauses x"
      using a
    proof
      assume m: "makedirs e ''output'' = Some x \<and> emotion p \<in> set (map fst EMOTION_SETTINGS)"
      then obtain c where "map_of EMOTION_SETTINGS (emotion p) = Some c"
        using known_tag by blast
      then have "map_of (g_EMOTION_SETTINGS ?g) (emotion p) = Some c"
        by (simp only: startup_settings)
      with m show ?thesis
        using emotion_makedirs_raises [of e x ?g p c] by blast
    next
      assume "k' \<in> set (calls (speak_with_emotion e ?g p)) \<and> tts_to_file e k' = Some x"
      then show ?thesis
        using emotion_backend_raises [of k' e ?g p x] by blast
    qed
    show "\<forall>msg. x = PyException msg \<longrightarrow>
         reply (speak_with_emotion e ?g p) = HTTPException 500 msg \<and>
         server_error (reply (speak_with_emotion e ?g p))"
      unfolding rp using except_clauses_cases [of x] by blast
    show "\<forall>c d. x = PyHTTPException c d \<longrightarrow>
         reply (speak_with_emotion e ?g p) = HTTPException c d"
      unfolding rp using except_clauses_cases [of x] by blast
    show "\<forall>n. x = PyBaseException n \<longrightarrow> reply (speak_with_emotion e ?g p) = Unhandled n"
      unfolding rp using except_clauses_cases [of x] by blast
  }
qed

theorem internal_errors_reply_500_witness:
  "makedirs readonly_env ''output'' = Some (PyException ''[Errno 30] Read-only file system'') \<and>
   emotion whisper_hello \<in> set (map fst EMOTION_SETTINGS) \<and>
   reply (speak readonly_env (startup False) plain_request) =
     HTTPException 500 ''[Errno 30] Read-only file system'' \<and>
   reply (speak_with_emotion readonly_env (startup False) whisper_hello) =
     HTTPException 500 ''[Errno 30] Read-only file system'' \<and>
   hd (calls (speak (failing_env (PyException ''CUDA out of memory'')) (startup False)
         plain_request))
     \<in> set (calls (speak (failing_env (PyException ''CUDA out of memory'')) (startup False)
         plain_request)) \<and>
   tts_to_file (failing_env (PyException ''CUDA out of memory''))
     (hd (calls (speak (failing_env (PyException ''CUDA out of memory'')) (startup False)
         plain_request))) =
     Some (PyException ''CUDA out of memory'') \<and>
   reply (speak (failing_env (PyException ''CUDA out of memory'')) (startup False)
       plain_request) =
     HTTPException 500 ''CUDA out of memory'' \<and>
   hd (calls (speak_with_emotion (failing_env (PyException ''CUDA out of memory''))
         (startup False) whisper_hello))
     \<in> set (calls (speak_with_emotion (failing_env (PyException ''CUDA out of memory''))
         (startup False) whisper_hello)) \<and>
   reply (speak_with_emotion (failing_env (PyException ''CUDA out of memory''))
       (startup False) whisper_hello) =
     HTTPException 500 ''CUDA out of memory'' \<and>
   reply (speak (failing_env (PyHTTPException 404 ''voice not found'')) (startup False)
       plain_request) =
     HTTPException 404 ''voice not found'' \<and>
   reply (speak (failing_env (PyBaseException ''KeyboardInterrupt'')) (startup False)
       plain_request) =
     Unhandled ''KeyboardInterrupt''"
proof -
  let ?m = "PyException ''[Errno 30] Read-only file system''"
  let ?x = "PyException ''CUDA out of memory''"
  let ?h = "PyHTTPException 404 ''voice not found''"
  let ?b = "PyBaseException ''KeyboardInterrupt''"
  let ?c = "\<lambda>x. calls (speak (failing_env x) (startup False) plain_request)"
  let ?d = "\<lambda>x. calls (speak_with_emotion (failing_env x) (startup False) whisper_hello)"
  have d: "makedirs readonly_env ''output'' = Some ?m"
    by (simp add: readonly_env_def)
  have t: "emotion whisper_hello \<in> set (map fst EMOTION_SETTINGS)"
    by (simp add: whisper_hello_def preset_keys)
  have c: "hd (?c x) \<in> set (?c x)" for x
    unfolding plain_calls_failing by simp
  have c': "hd (?d x) \<in> set (?d x)" for x
    unfolding whisper_calls_failing by simp
  have f: "tts_to_file (failing_env x) k = Some x" for x k
    by (simp add: failing_env_def)
  have g: "run [] (startup False) = startup False"
    by simp
  note a = internal_errors_reply_500
    [of readonly_env ?m "[]" "[]" False plain_request whisper_hello "[]", unfolded g]
  note b = internal_errors_reply_500
    [of "failing_env ?x" ?x "hd (?c ?x)" "[]" False plain_request whisper_hello
      "hd (?d ?x)", unfolded g]
  note h = internal_errors_reply_500
    [of "failing_env ?h" ?h "hd (?c ?h)" "[]" False plain_request whisper_hello
      "hd (?d ?h)", unfolded g]
  note i = internal_errors_reply_500
    [of "failing_env ?b" ?b "hd (?c ?b)" "[]" False plain_request whisper_hello
      "hd (?d ?b)", unfolded g]
  have 1: "reply (speak readonly_env (startup False) plain_request) =
     HTTPException 500 ''[Errno 30] Read-only file system''"
    using a d by blast
  have 2: "reply (speak_with_emotion readonly_env (startup False) whisper_hello) =
     HTTPException 500 ''[Errno 30] Read-only file system''"
    using a d t by blast
  have 3: "reply (speak (failing_env ?x) (startup False) plain_request) =
     HTTPException 500 ''CUDA out of memory''"
    using b c [of ?x] f [of ?x] by blast
  have 4: "reply (speak_with_emotion (failing_env ?x) (startup False) whisper_hello) =
     HTTPException 500 ''CUDA out of memory''"
    using b c' [of ?x] f [of ?x] by blast
  have 5: "reply (speak (failing_env ?h) (startup False) plain_request) =
     HTTPException 404 ''voice not found''"
    using h c [of ?h] f [of ?h] by blast
  have 6: "reply (speak (failing_env ?b) (startup False) plain_request) =
     Unhandled ''KeyboardInterrupt''"
    using i c [of ?b] f [of ?b] by blast
  from d t 1 2 c [of ?x] f [of ?x] 3 c' [of ?x] 4 5 6 show ?thesis
    by (intro conjI)
qed

subsection \<open>The speaker file\<close>

lemma if_else_cases:
  "(w = None \<or> w = Some [] \<longrightarrow> if_else w d = d) \<and>
   (\<forall>s. w = Some s \<and> s \<noteq> [] \<longrightarrow> if_else w d = s)"
  by (auto simp: if_else_def)

lemma speak_speaker_kw:
  assumes "k \<in> set (calls (speak e g r))"
  shows "map_of k ''speaker_wav'' =
           Some (PyStr (if_else (tts_speaker_wav r) (g_DEFAULT_SPEAKER_WAV g)))"
  by (subst speak_call_shape [OF assms]) simp

lemma emotion_speaker_kw:
  assumes "k \<in> set (calls (speak_with_emotion e g p))"
  shows "map_of k ''speaker_wav'' =
           Some (PyStr (if_else (ep_speaker_wav p) (g_DEFAULT_SPEAKER_WAV g)))"
proof -
  from emotion_call_shape [OF assms] obtain c
    where "map_of (g_EMOTION_SETTINGS g) (emotion p) = Some c"
      and k: "k = [(''text'', PyStr (cfg_prefix c @ ep_text p)),
                (''speaker_wav'', PyStr (if_else (ep_speaker_wav p) (g_DEFAULT_SPEAKER_WAV g))),
                (''language'', PyStr (ep_language p)),
                (''file_path'', PyStr (''output/'' @ uuid4_hex e @ ''.wav'')),
                (''speed'', PyFloat (cfg_speed c)),
                (''temperature'', PyFloat (cfg_temperature c)),
                (''top_p'', PyFloat (cfg_top_p c))]"
    by blast
  show ?thesis
    unfolding k by simp
qed

lemma empty_speaker_calls:
  "calls (speak sample_env (startup False) empty_speaker_request) =
     [[(''text'', PyStr ''Hello''),
       (''speaker_wav'', PyStr ''test.wav''),
       (''language'', PyStr ''en''),
       (''file_path'', PyStr ''output/0f8fad5bd9cb469fa16570867728950e.wav''),
       (''speed'', PyFloat 1.0),
       (''temperature'', PyFloat 0.75),
       (''length_penalty'', PyFloat 1.0),
       (''repetition_penalty'', PyFloat 5.0),
       (''top_k'', PyInt 50),
       (''top_p'', PyFloat 0.85)]]"
  by (simp add: speak_def startup_def empty_speaker_request_def plain_request_def
      sample_env_def if_else_def DEFAULT_SPEAKER_WAV_def opt_float_def opt_int_def Let_def)

text \<open>
  C9, as the specification states it: a speaker_wav that is not null is used as it
  is. The empty string is not null, and a request to \<open>/speak\<close> with the empty string
  as speaker_wav calls the backend with the default speaker file \<open>test.wav\<close>.
\<close>

theorem empty_speaker_takes_default:
  "tts_speaker_wav empty_speaker_request = Some [] \<and>
   calls (speak sample_env (startup False) empty_speaker_request) =
     [[(''text'', PyStr ''Hello''),
       (''speaker_wav'', PyStr ''test.wav''),
       (''language'', PyStr ''en''),
       (''file_path'', PyStr ''output/0f8fad5bd9cb469fa16570867728950e.wav''),
       (''speed'', PyFloat 1.0),
       (''temperature'', PyFloat 0.75),
       (''length_penalty'', PyFloat 1.0),
       (''repetition_penalty'', PyFloat 5.0),
       (''top_k'', PyInt 50),
       (''top_p'', PyFloat 0.85)]] \<and>
   PyStr ''test.wav'' \<noteq> PyStr []"
proof -
  have "tts_speaker_wav empty_speaker_request = Some []"
    by (simp add: empty_speaker_request_def)
  with empty_speaker_calls show ?thesis
    by simp
qed

text \<open>
  C9, amended. On \<open>/speak\<close> and on \<open>/speak_emotion\<close>, when speaker_wav is absent,
  null or the empty string, the speaker file passed to the backend is the default
  \<open>test.wav\<close> (DEFAULT_SPEAKER_WAV); a speaker_wav that is a non-empty string is
  passed as it is.
\<close>

theorem speaker_resolution:
  "(\<forall>k \<in> set (calls (speak e (run ops (startup cuda)) r)).
      (tts_speaker_wav r = None \<or> tts_speaker_wav r = Some [] \<longrightarrow>
         map_of k ''speaker_wav'' = Some (PyStr ''test.wav'')) \<and>
      (\<forall>s. tts_speaker_wav r = Some s \<and> s \<noteq> [] \<longrightarrow>
         map_of k ''speaker_wav'' = Some (PyStr s))) \<and>
   (\<forall>k \<in> set (calls (speak_with_emotion e (run ops (startup cuda)) p)).
      (ep_speaker_wav p = None \<or> ep_speaker_wav p = Some [] \<longrightarrow>
         map_of k ''speaker_wav'' = Some (PyStr ''test.wav'')) \<and>
      (\<forall>s. ep_speaker_wav p = Some s \<and> s \<noteq> [] \<longrightarrow>
         map_of k ''speaker_wav'' = Some (PyStr s)))"
proof (intro conjI ballI)
  let ?g = "run ops (startup cuda)"
  have t: "DEFAULT_SPEAKER_WAV = ''test.wav''"
    by (simp add: DEFAULT_SPEAKER_WAV_def)
  {
    fix k assume "k \<in> set (calls (speak e ?g r))"
    from speak_speaker_kw [OF this]
    have k: "map_of k ''speaker_wav'' = Some (PyStr (if_else (tts_speaker_wav r) ''test.wav''))"
      by (simp only: startup_speaker t)
    show "tts_speaker_wav r = None \<or> tts_speaker_wav r = Some [] \<longrightarrow>
         map_of k ''speaker_wav'' = Some (PyStr ''test.wav'')"
      unfolding k using if_else_cases [of "tts_speaker_wav r" "''test.wav''"] by blast
    show "\<forall>s. tts_speaker_wav r = Some s \<and> s \<noteq> [] \<longrightarrow>
         map_of k ''speaker_wav'' = Some (PyStr s)"
      unfolding k using if_else_cases [of "tts_speaker_wav r" "''test.wav''"] by blast
  }
  {
    fix k assume "k \<in> set (calls (speak_with_emotion e ?g p))"
    from emotion_speaker_kw [OF this]
    have k: "map_of k ''speaker_wav'' = Some (PyStr (if_else (ep_speaker_wav p) ''test.wav''))"
      by (simp only: startup_speaker t)
    show "ep_speaker_wav p = None \<or> ep_speaker_wav p = Some [] \<longrightarrow>
         map_of k ''speaker_wav'' = Some (PyStr ''test.wav'')"
      unfolding k using if_else_cases [of "ep_speaker_wav p" "''test.wav''"] by blast
    show "\<forall>s. ep_speaker_wav p = Some s \<and> s \<noteq> [] \<longrightarrow>
         map_of k ''speaker_wav'' = Some (PyStr s)"
      unfolding k using if_else_cases [of "ep_speaker_wav p" "''test.wav''"] by blast
  }
qed

lemma alice_calls:
  "calls (speak_with_emotion sample_env (startup False)
      (whisper_hello\<lparr>ep_speaker_wav := Some ''alice.wav''\<rparr>)) =
     [[(''text'', PyStr ''**whispers** Hello''),
       (''speaker_wav'', PyStr ''alice.wav''),
       (''language'', PyStr ''en''),
       (''file_path'', PyStr ''output/0f8fad5bd9cb469fa16570867728950e.wav''),
       (''speed'', PyFloat 0.85),
       (''temperature'', PyFloat 0.5),
       (''top_p'', PyFloat 0.6)]]"
  by (simp add: speak_with_emotion_def startup_def whisper_config whisper_hello_def
      sample_env_def if_else_def DEFAULT_SPEAKER_WAV_def Let_def)

theorem speaker_resolution_witness:
  "hd (calls (speak sample_env (startup False) empty_speaker_request))
     \<in> set (calls (speak sample_env (startup False) empty_speaker_request)) \<and>
   tts_speaker_wav empty_speaker_request = Some [] \<and>
   map_of (hd (calls (speak sample_env (startup False) empty_speaker_request)))
     ''speaker_wav'' = Some (PyStr ''test.wav'') \<and>
   hd (calls (speak_with_emotion sample_env (startup False)
        (whisper_hello\<lparr>ep_speaker_wav := Some ''alice.wav''\<rparr>)))
     \<in> set (calls (speak_with_emotion sample_env (startup False)
        (whisper_hello\<lparr>ep_speaker_wav := Some ''alice.wav''\<rparr>))) \<and>
   ep_speaker_wav (whisper_hello\<lparr>ep_speaker_wav := Some ''alice.wav''\<rparr>) =
     Some ''alice.wav'' \<and>
   ''alice.wav'' \<noteq> [] \<and>
   map_of (hd (calls (speak_with_emotion sample_env (startup False)
        (whisper_hello\<lparr>ep_speaker_wav := Some ''alice.wav''\<rparr>))))
     ''speaker_wav'' = Some (PyStr ''alice.wav'')"
proof -
  let ?p = "whisper_hello\<lparr>ep_speaker_wav := Some ''alice.wav''\<rparr>"
  let ?c = "calls (speak sample_env (startup False) empty_speaker_request)"
  let ?d = "calls (speak_with_emotion sample_env (startup False) ?p)"
  have g: "run [] (startup False) = startup False"
    by simp
  note a = speaker_resolution
    [of sample_env "[]" False empty_speaker_request ?p, unfolded g]
  have c: "hd ?c \<in> set ?c"
    unfolding empty_speaker_calls by simp
  have d: "hd ?d \<in> set ?d"
    unfolding alice_calls by simp
  have w: "tts_speaker_wav empty_speaker_request = Some []"
    by (simp add: empty_speaker_request_def)
  have v: "ep_speaker_wav ?p = Some ''alice.wav''" and n: "''alice.wav'' \<noteq> []"
    by simp_all
  have 1: "map_of (hd ?c) ''speaker_wav'' = Some (PyStr ''test.wav'')"
    using a c w by blast
  have 2: "map_of (hd ?d) ''speaker_wav'' = Some (PyStr ''alice.wav'')"
    using a d v n by blast
  from c w 1 d v n 2 show ?thesis
    by (intro conjI)
qed

subsection \<open>The preset table is read-only\<close>

text \<open>
  C7. The preset table is fixed when the module is loaded and no endpoint writes it:
  each of \<open>/\<close>, \<open>/speak\<close>, \<open>/speak_emotion\<close> and \<open>/emotions\<close> leaves the table as
  it found it, so after any sequence of requests every handler still sees the six
  presets of the module text.
\<close>

theorem emotion_settings_read_only:
  "g_EMOTION_SETTINGS (startup cuda) = EMOTION_SETTINGS \<and>
   g_EMOTION_SETTINGS (after (handle e g op)) = g_EMOTION_SETTINGS g \<and>
   g_EMOTION_SETTINGS (run ops (startup cuda)) = EMOTION_SETTINGS"
  by (simp add: after_handle run_same startup_def)

subsection \<open>Defaults of the request model\<close>

lemma dflt_cases:
  "(given = None \<longrightarrow> dflt given d = d) \<and> (\<forall>v. given = Some v \<longrightarrow> dflt given d = v)"
  by (simp add: dflt_def)

lemma opt_float_dflt:
  "opt_float (dflt given (Some d)) =
     (case given of None \<Rightarrow> PyFloat d | Some None \<Rightarrow> PyNone | Some (Some v) \<Rightarrow> PyFloat v)"
  by (simp add: dflt_def opt_float_def split: option.split)

lemma opt_int_dflt:
  "opt_int (dflt given (Some d)) =
     (case given of None \<Rightarrow> PyInt d | Some None \<Rightarrow> PyNone | Some (Some v) \<Rightarrow> PyInt v)"
  by (simp add: dflt_def opt_int_def split: option.split)

lemma accepted_body:
  assumes "TTSRequest_of_body b = Inr req"
  shows "speed req = dflt (b_speed b) (Some 1.0)"
    and "temperature req = dflt (b_temperature b) (Some 0.75)"
    and "length_penalty req = dflt (b_length_penalty b) (Some 1.0)"
    and "repetition_penalty req = dflt (b_repetition_penalty b) (Some 5.0)"
    and "top_k req = dflt (b_top_k b) (Some 50)"
    and "top_p req = dflt (b_top_p b) (Some 0.85)"
    and "tts_language req = dflt (b_language b) ''en''"
proof -
  obtain t where "b_text b = Some t"
    using assms by (cases "b_text b") (simp_all add: TTSRequest_of_body_def)
  with assms have req: "req =
        \<lparr>tts_text = t,
         tts_speaker_wav = dflt (b_speaker_wav b) None,
         tts_language = dflt (b_language b) ''en'',
         speed = dflt (b_speed b) (Some 1.0),
         temperature = dflt (b_temperature b) (Some 0.75),
         length_penalty = dflt (b_length_penalty b) (Some 1.0),
         repetition_penalty = dflt (b_repetition_penalty b) (Some 5.0),
         top_k = dflt (b_top_k b) (Some 50),
         top_p = dflt (b_top_p b) (Some 0.85)\<rparr>"
    by (simp add: TTSRequest_of_body_def)
  show "speed req = dflt (b_speed b) (Some 1.0)"
    and "temperature req = dflt (b_temperature b) (Some 0.75)"
    and "length_penalty req = dflt (b_length_penalty b) (Some 1.0)"
    and "repetition_penalty req = dflt (b_repetition_penalty b) (Some 5.0)"
    and "top_k req = dflt (b_top_k b) (Some 50)"
    and "top_p req = dflt (b_top_p b) (Some 0.85)"
    and "tts_language req = dflt (b_language b) ''en''"
    unfolding req by simp_all
qed

lemma null_speed_parsed:
  "TTSRequest_of_body null_speed_body = Inr (plain_request\<lparr>speed := None\<rparr>)"
  by (simp add: TTSRequest_of_body_def dflt_def null_speed_body_def only_text_def
      plain_request_def)

lemma null_speed_calls:
  "calls (speak sample_env (startup False) (plain_request\<lparr>speed := None\<rparr>)) =
     [[(''text'', PyStr ''Hello''),
       (''speaker_wav'', PyStr ''test.wav''),
       (''language'', PyStr ''en''),
       (''file_path'', PyStr ''output/0f8fad5bd9cb469fa16570867728950e.wav''),
       (''speed'', PyNone),
       (''temperature'', PyFloat 0.75),
       (''length_penalty'', PyFloat 1.0),
       (''repetition_penalty'', PyFloat 5.0),
       (''top_k'', PyInt 50),
       (''top_p'', PyFloat 0.85)]]"
  by (simp add: speak_def startup_def plain_request_def sample_env_def
      if_else_def DEFAULT_SPEAKER_WAV_def opt_float_def opt_int_def Let_def)

text \<open>
  C8, as the specification states it: in every accepted request every control field
  is present with a value, the default where the caller gave none. A body that gives
  \<open>speed\<close> as an explicit null is accepted (the field is declared \<open>Optional\<close>), the
  request holds no speed, and the backend is called with \<open>speed=None\<close>.
\<close>

theorem null_speed_accepted:
  "b_speed null_speed_body = Some None \<and>
   TTSRequest_of_body null_speed_body = Inr (plain_request\<lparr>speed := None\<rparr>) \<and>
   speed (plain_request\<lparr>speed := None\<rparr>) = None \<and>
   calls (speak sample_env (startup False) (plain_request\<lparr>speed := None\<rparr>)) =
     [[(''text'', PyStr ''Hello''),
       (''speaker_wav'', PyStr ''test.wav''),
       (''language'', PyStr ''en''),
       (''file_path'', PyStr ''output/0f8fad5bd9cb469fa16570867728950e.wav''),
       (''speed'', PyNone),
       (''temperature'', PyFloat 0.75),
       (''length_penalty'', PyFloat 1.0),
       (''repetition_penalty'', PyFloat 5.0),
       (''top_k'', PyInt 50),
       (''top_p'', PyFloat 0.85)]]"
proof -
  have "b_speed null_speed_body = Some None"
    by (simp add: null_speed_body_def)
  moreover have "speed (plain_request\<lparr>speed := None\<rparr>) = None"
    by simp
  ultimately show ?thesis
    using null_speed_parsed null_speed_calls by (intro conjI)
qed

text \<open>
  C8, amended. In every request accepted by \<open>TTSRequest\<close>, a control field whose key
  the body leaves out takes the default of the class declaration (speed 1.0,
  temperature 0.75, length_penalty 1.0, repetition_penalty 5.0, top_k 50, top_p 0.85,
  language \<open>en\<close>), and a field given in the body keeps what was given: a number, or,
  for the six controls, an explicit null, which is accepted and leaves the field
  \<open>None\<close>. The backend call of \<open>/speak\<close> carries each control accordingly: the
  default, the number given, or \<open>None\<close>.
\<close>

theorem omitted_fields_take_defaults:
  assumes "TTSRequest_of_body b = Inr req"
  shows "(b_speed b = None \<longrightarrow> speed req = Some 1.0) \<and>
         (b_temperature b = None \<longrightarrow> temperature req = Some 0.75) \<and>
         (b_length_penalty b = None \<longrightarrow> length_penalty req = Some 1.0) \<and>
         (b_repetition_penalty b = None \<longrightarrow> repetition_penalty req = Some 5.0) \<and>
         (b_top_k b = None \<longrightarrow> top_k req = Some 50) \<and>
         (b_top_p b = None \<longrightarrow> top_p req = Some 0.85) \<and>
         (b_language b = None \<longrightarrow> tts_language req = ''en'') \<and>
         (\<forall>v. b_speed b = Some v \<longrightarrow> speed req = v) \<and>
         (\<forall>v. b_temperature b = Some v \<longrightarrow> temperature req = v) \<and>
         (\<forall>v. b_length_penalty b = Some v \<longrightarrow> length_penalty req = v) \<and>
         (\<forall>v. b_repetition_penalty b = Some v \<longrightarrow> repetition_penalty req = v) \<and>
         (\<forall>v. b_top_k b = Some v \<longrightarrow> top_k req = v) \<and>
         (\<forall>v. b_top_p b = Some v \<longrightarrow> top_p req = v) \<and>
         (\<forall>v. b_language b = Some v \<longrightarrow> tts_language req = v) \<and>
         (\<forall>k \<in> set (calls (speak e (run ops (startup cuda)) req)).
            map_of k ''speed'' = Some (case b_speed b of None \<Rightarrow> PyFloat 1.0
               | Some None \<Rightarrow> PyNone | Some (Some v) \<Rightarrow> PyFloat v) \<and>
            map_of k ''temperature'' = Some (case b_temperature b of None \<Rightarrow> PyFloat 0.75
               | Some None \<Rightarrow> PyNone | Some (Some v) \<Rightarrow> PyFloat v) \<and>
            map_of k ''length_penalty'' = Some (case b_length_penalty b of
                 None \<Rightarrow> PyFloat 1.0
               | Some None \<Rightarrow> PyNone | Some (Some v) \<Rightarrow> PyFloat v) \<and>
            map_of k ''repetition_penalty'' = Some (case b_repetition_penalty b of
                 None \<Rightarrow> PyFloat 5.0
               | Some None \<Rightarrow> PyNone | Some (Some v) \<Rightarrow> PyFloat v) \<and>
            map_of k ''top_k'' = Some (case b_top_k b of None \<Rightarrow> PyInt 50
               | Some None \<Rightarrow> PyNone | Some (Some v) \<Rightarrow> PyInt v) \<and>
            map_of k ''top_p'' = Some (case b_top_p b of None \<Rightarrow> PyFloat 0.85
               | Some None \<Rightarrow> PyNone | Some (Some v) \<Rightarrow> PyFloat v))"
proof -
  note f = accepted_body [OF assms]
  have 1: "(b_speed b = None \<longrightarrow> speed req = Some 1.0) \<and>
           (\<forall>v. b_speed b = Some v \<longrightarrow> speed req = v)"
    unfolding f(1) by (rule dflt_cases)
  have 2: "(b_temperature b = None \<longrightarrow> temperature req = Some 0.75) \<and>
           (\<forall>v. b_temperature b = Some v \<longrightarrow> temperature req = v)"
    unfolding f(2) by (rule dflt_cases)
  have 3: "(b_length_penalty b = None \<longrightarrow> length_penalty req = Some 1.0) \<and>
           (\<forall>v. b_length_penalty b = Some v \<longrightarrow> length_penalty req = v)"
    unfolding f(3) by (rule dflt_cases)
  have 4: "(b_repetition_penalty b = None \<longrightarrow> repetition_penalty req = Some 5.0) \<and>
           (\<forall>v. b_repetition_penalty b = Some v \<longrightarrow> repetition_penalty req = v)"
    unfolding f(4) by (rule dflt_cases)
  have 5: "(b_top_k b = None \<longrightarrow> top_k req = Some 50) \<and>
           (\<forall>v. b_top_k b = Some v \<longrightarrow> top_k req = v)"
    unfolding f(5) by (rule dflt_cases)
  have 6: "(b_top_p b = None \<longrightarrow> top_p req = Some 0.85) \<and>
           (\<forall>v. b_top_p b = Some v \<longrightarrow> top_p req = v)"
    unfolding f(6) by (rule dflt_cases)
  have 7: "(b_language b = None \<longrightarrow> tts_language req = ''en'') \<and>
           (\<forall>v. b_language b = Some v \<longrightarrow> tts_language req = v)"
    unfolding f(7) by (rule dflt_cases)
  have 8: "\<forall>k \<in> set (calls (speak e (run ops (startup cuda)) req)).
            map_of k ''speed'' = Some (case b_speed b of None \<Rightarrow> PyFloat 1.0
               | Some None \<Rightarrow> PyNone | Some (Some v) \<Rightarrow> PyFloat v) \<and>
            map_of k ''temperature'' = Some (case b_temperature b of None \<Rightarrow> PyFloat 0.75
               | Some None \<Rightarrow> PyNone | Some (Some v) \<Rightarrow> PyFloat v) \<and>
            map_of k ''length_penalty'' = Some (case b_length_penalty b of
                 None \<Rightarrow> PyFloat 1.0
               | Some None \<Rightarrow> PyNone | Some (Some v) \<Rightarrow> PyFloat v) \<and>
            map_of k ''repetition_penalty'' = Some (case b_repetition_penalty b of
                 None \<Rightarrow> PyFloat 5.0
               | Some None \<Rightarrow> PyNone | Some (Some v) \<Rightarrow> PyFloat v) \<and>
            map_of k ''top_k'' = Some (case b_top_k b of None \<Rightarrow> PyInt 50
               | Some None \<Rightarrow> PyNone | Some (Some v) \<Rightarrow> PyInt v) \<and>
            map_of k ''top_p'' = Some (case b_top_p b of None \<Rightarrow> PyFloat 0.85
               | Some None \<Rightarrow> PyNone | Some (Some v) \<Rightarrow> PyFloat v)"
  proof
    fix k assume "k \<in> set (calls (speak e (run ops (startup cuda)) req))"
    note k = speak_call_shape [OF this]
    have s: "map_of k ''speed'' = Some (opt_float (speed req))"
      and t: "map_of k ''temperature'' = Some (opt_float (temperature req))"
      and l: "map_of k ''length_penalty'' = Some (opt_float (length_penalty req))"
      and r: "map_of k ''repetition_penalty'' = Some (opt_float (repetition_penalty req))"
      and i: "map_of k ''top_k'' = Some (opt_int (top_k req))"
      and p: "map_of k ''top_p'' = Some (opt_float (top_p req))"
      by (subst k, simp)+
    show "map_of k ''speed'' = Some (case b_speed b of None \<Rightarrow> PyFloat 1.0
               | Some None \<Rightarrow> PyNone | Some (Some v) \<Rightarrow> PyFloat v) \<and>
            map_of k ''temperature'' = Some (case b_temperature b of None \<Rightarrow> PyFloat 0.75
               | Some None \<Rightarrow> PyNone | Some (Some v) \<Rightarrow> PyFloat v) \<and>
            map_of k ''length_penalty'' = Some (case b_length_penalty b of
                 None \<Rightarrow> PyFloat 1.0
               | Some None \<Rightarrow> PyNone | Some (Some v) \<Rightarrow> PyFloat v) \<and>
            map_of k ''repetition_penalty'' = Some (case b_repetition_penalty b of
                 None \<Rightarrow> PyFloat 5.0
               | Some None \<Rightarrow> PyNone | Some (Some v) \<Rightarrow> PyFloat v) \<and>
            map_of k ''top_k'' = Some (case b_top_k b of None \<Rightarrow> PyInt 50
               | Some None \<Rightarrow> PyNone | Some (Some v) \<Rightarrow> PyInt v) \<and>
            map_of k ''top_p'' = Some (case b_top_p b of None \<Rightarrow> PyFloat 0.85
               | Some None \<Rightarrow> PyNone | Some (Some v) \<Rightarrow> PyFloat v)"
      unfolding s t l r i p f opt_float_dflt opt_int_dflt by (intro conjI refl)
  qed
  from 1 2 3 4 5 6 7 8 show ?thesis
    by blast
qed

theorem omitted_fields_take_defaults_witness:
  "TTSRequest_of_body only_text = Inr plain_request \<and>
   b_speed only_text = None \<and> b_temperature only_text = None \<and>
   b_length_penalty only_text = None \<and> b_repetition_penalty only_text = None \<and>
   b_top_k only_text = None \<and> b_top_p only_text = None \<and> b_language only_text = None \<and>
   speed plain_request = Some 1.0 \<and> temperature plain_request = Some 0.75 \<and>
   length_penalty plain_request = Some 1.0 \<and> repetition_penalty plain_request = Some 5.0 \<and>
   top_k plain_request = Some 50 \<and> top_p plain_request = Some 0.85 \<and>
   tts_language plain_request = ''en'' \<and>
   TTSRequest_of_body null_speed_body = Inr (plain_request\<lparr>speed := None\<rparr>) \<and>
   b_speed null_speed_body = Some None \<and>
   hd (calls (speak sample_env (startup False) (plain_request\<lparr>speed := None\<rparr>)))
     \<in> set (calls (speak sample_env (startup False) (plain_request\<lparr>speed := None\<rparr>))) \<and>
   map_of (hd (calls (speak sample_env (startup False) (plain_request\<lparr>speed := None\<rparr>))))
     ''speed'' = Some PyNone"
proof -
  let ?c = "calls (speak sample_env (startup False) (plain_request\<lparr>speed := None\<rparr>))"
  have p: "TTSRequest_of_body only_text = Inr plain_request"
    by (simp add: TTSRequest_of_body_def dflt_def only_text_def plain_request_def)
  have n: "b_speed only_text = None" "b_temperature only_text = None"
    "b_length_penalty only_text = None" "b_repetition_penalty only_text = None"
    "b_top_k only_text = None" "b_top_p only_text = None" "b_language only_text = None"
    by (simp_all add: only_text_def)
  have g: "run [] (startup False) = startup False"
    by simp
  have s: "b_speed null_speed_body = Some None"
    by (simp add: null_speed_body_def)
  have c: "hd ?c \<in> set ?c"
    unfolding null_speed_calls by simp
  note a = omitted_fields_take_defaults [OF p, of sample_env "[]" False]
  note b = omitted_fields_take_defaults [OF null_speed_parsed, of sample_env "[]" False,
      unfolded g]
  have 1: "speed plain_request = Some 1.0 \<and> temperature plain_request = Some 0.75 \<and>
   length_penalty plain_request = Some 1.0 \<and> repetition_penalty plain_request = Some 5.0 \<and>
   top_k plain_request = Some 50 \<and> top_p plain_request = Some 0.85 \<and>
   tts_language plain_request = ''en''"
    using a n by blast
  have "map_of (hd ?c) ''speed'' = Some (case b_speed null_speed_body of
      None \<Rightarrow> PyFloat 1.0 | Some None \<Rightarrow> PyNone | Some (Some v) \<Rightarrow> PyFloat v)"
    using b c by blast
  then have 2: "map_of (hd ?c) ''speed'' = Some PyNone"
    unfolding s by simp
  from p n 1 null_speed_parsed s c 2 show ?thesis
    by (intro conjI) blast+
qed

subsection \<open>Controls passed by the two endpoints\<close>

text \<open>
  C10. \<open>/speak_emotion\<close> passes to the backend the preset's speed, temperature and
  top_p and no other control: length_penalty, repetition_penalty and top_k are not
  among the keywords of its call. \<open>/speak\<close> passes all six controls, each as the
  request holds it.
\<close>

theorem emotion_endpoint_forwards_three_controls:
  "(\<forall>k \<in> set (calls (speak_with_emotion e (run ops (startup cuda)) p)).
      map fst k = [''text'', ''speaker_wav'', ''language'', ''file_path'',
                   ''speed'', ''temperature'', ''top_p''] \<and>
      map_of k ''speed'' =
        map_option (PyFloat \<circ> cfg_speed) (map_of EMOTION_SETTINGS (emotion p)) \<and>
      map_of k ''temperature'' =
        map_option (PyFloat \<circ> cfg_temperature) (map_of EMOTION_SETTINGS (emotion p)) \<and>
      map_of k ''top_p'' =
        map_option (PyFloat \<circ> cfg_top_p) (map_of EMOTION_SETTINGS (emotion p)) \<and>
      map_of k ''length_penalty'' = None \<and>
      map_of k ''repetition_penalty'' = None \<and>
      map_of k ''top_k'' = None) \<and>
   (\<forall>k \<in> set (calls (speak e (run ops (startup cuda)) r)).
      map fst k = [''text'', ''speaker_wav'', ''language'', ''file_path'',
                   ''speed'', ''temperature'', ''length_penalty'', ''repetition_penalty'',
                   ''top_k'', ''top_p''] \<and>
      map_of k ''speed'' = Some (opt_float (speed r)) \<and>
      map_of k ''temperature'' = Some (opt_float (temperature r)) \<and>
      map_of k ''length_penalty'' = Some (opt_float (length_penalty r)) \<and>
      map_of k ''repetition_penalty'' = Some (opt_float (repetition_penalty r)) \<and>
      map_of k ''top_k'' = Some (opt_int (top_k r)) \<and>
      map_of k ''top_p'' = Some (opt_float (top_p r)))"
proof (intro conjI ballI)
  fix k assume "k \<in> set (calls (speak_with_emotion e (run ops (startup cuda)) p))"
  from emotion_call_shape [OF this] obtain c
    where c: "map_of EMOTION_SETTINGS (emotion p) = Some c"
      and k: "k = [(''text'', PyStr (cfg_prefix c @ ep_text p)),
                (''speaker_wav'', PyStr (if_else (ep_speaker_wav p)
                    (g_DEFAULT_SPEAKER_WAV (run ops (startup cuda))))),
                (''language'', PyStr (ep_language p)),
                (''file_path'', PyStr (''output/'' @ uuid4_hex e @ ''.wav'')),
                (''speed'', PyFloat (cfg_speed c)),
                (''temperature'', PyFloat (cfg_temperature c)),
                (''top_p'', PyFloat (cfg_top_p c))]"
    unfolding startup_settings by blast
  show "map fst k = [''text'', ''speaker_wav'', ''language'', ''file_path'',
                   ''speed'', ''temperature'', ''top_p'']"
    unfolding k by simp
  show "map_of k ''speed'' =
        map_option (PyFloat \<circ> cfg_speed) (map_of EMOTION_SETTINGS (emotion p))"
    unfolding k c by simp
  show "map_of k ''temperature'' =
        map_option (PyFloat \<circ> cfg_temperature) (map_of EMOTION_SETTINGS (emotion p))"
    unfolding k c by simp
  show "map_of k ''top_p'' =
        map_option (PyFloat \<circ> cfg_top_p) (map_of EMOTION_SETTINGS (emotion p))"
    unfolding k c by simp
  show "map_of k ''length_penalty'' = None"
    unfolding k by simp
  show "map_of k ''repetition_penalty'' = None"
    unfolding k by simp
  show "map_of k ''top_k'' = None"
    unfolding k by simp
next
  fix k assume "k \<in> set (calls (speak e (run ops (startup cuda)) r))"
  note k = speak_call_shape [OF this]
  show "map fst k = [''text'', ''speaker_wav'', ''language'', ''file_path'',
                   ''speed'', ''temperature'', ''length_penalty'', ''repetition_penalty'',
                   ''top_k'', ''top_p'']"
    by (subst k) simp
  show "map_of k ''speed'' = Some (opt_float (speed r))"
    by (subst k) simp
  show "map_of k ''temperature'' = Some (opt_float (temperature r))"
    by (subst k) simp
  show "map_of k ''length_penalty'' = Some (opt_float (length_penalty r))"
    by (subst k) simp
  show "map_of k ''repetition_penalty'' = Some (opt_float (repetition_penalty r))"
    by (subst k) simp
  show "map_of k ''top_k'' = Some (opt_int (top_k r))"
    by (subst k) simp
  show "map_of k ''top_p'' = Some (opt_float (top_p r))"
    by (subst k) simp
qed

theorem emotion_endpoint_forwards_three_controls_witness:
  "hd (calls (speak_with_emotion (failing_env (PyException ''busy'')) (startup False) whisper_hello))
     \<in> set (calls (speak_with_emotion (failing_env (PyException ''busy'')) (startup False) whisper_hello)) \<and>
   map fst (hd (calls (speak_with_emotion (failing_env (PyException ''busy'')) (startup False)
       whisper_hello))) =
     [''text'', ''speaker_wav'', ''language'', ''file_path'', ''speed'', ''temperature'',
      ''top_p''] \<and>
   map_of (hd (calls (speak_with_emotion (failing_env (PyException ''busy'')) (startup False)
       whisper_hello))) ''top_k'' = None \<and>
   hd (calls (speak (failing_env (PyException ''busy'')) (startup False) plain_request))
     \<in> set (calls (speak (failing_env (PyException ''busy'')) (startup False) plain_request)) \<and>
   map fst (hd (calls (speak (failing_env (PyException ''busy'')) (startup False) plain_request))) =
     [''text'', ''speaker_wav'', ''language'', ''file_path'', ''speed'', ''temperature'',
      ''length_penalty'', ''repetition_penalty'', ''top_k'', ''top_p''] \<and>
   map_of (hd (calls (speak (failing_env (PyException ''busy'')) (startup False) plain_request)))
     ''top_k'' = Some (opt_int (top_k plain_request))"
proof -
  let ?c = "calls (speak (failing_env (PyException ''busy'')) (startup False) plain_request)"
  let ?d = "calls (speak_with_emotion (failing_env (PyException ''busy'')) (startup False) whisper_hello)"
  have g: "run [] (startup False) = startup False"
    by simp
  note a = emotion_endpoint_forwards_three_controls
    [of "failing_env (PyException ''busy'')" "[]" False whisper_hello plain_request, unfolded g]
  have c: "hd ?c \<in> set ?c"
    unfolding plain_calls_failing by simp
  have d: "hd ?d \<in> set ?d"
    unfolding whisper_calls_failing by simp
  have 1: "map fst (hd ?d) =
     [''text'', ''speaker_wav'', ''language'', ''file_path'', ''speed'', ''temperature'',
      ''top_p'']"
    using a d by blast
  have 2: "map_of (hd ?d) ''top_k'' = None"
    using a d by blast
  have 3: "map fst (hd ?c) =
     [''text'', ''speaker_wav'', ''language'', ''file_path'', ''speed'', ''temperature'',
      ''length_penalty'', ''repetition_penalty'', ''top_k'', ''top_p'']"
    using a c by blast
  have 4: "map_of (hd ?c) ''top_k'' = Some (opt_int (top_k plain_request))"
    using a c by blast
  from d 1 2 c 3 4 show ?thesis
    by (intro conjI)
qed

subsection \<open>Documented ranges\<close>

lemma in_range_float: "in_range lo hi (Some (PyFloat x)) \<longleftrightarrow> lo \<le> x \<and> x \<le> hi"
  by (simp add: in_range_def)

lemma speak_calls_in_range:
  assumes "k \<in> set (calls (speak e g r))"
  shows "params_in_range k \<longleftrightarrow> request_in_range r"
  by (subst speak_call_shape [OF assms]) (simp add: params_in_range_def request_in_range_def)

lemma emotion_calls_in_range:
  assumes "k \<in> set (calls (speak_with_emotion e g p))"
    and "g_EMOTION_SETTINGS g = EMOTION_SETTINGS"
  shows "params_in_range k"
proof -
  from emotion_call_shape [OF assms(1)] obtain c
    where c: "map_of EMOTION_SETTINGS (emotion p) = Some c"
      and k: "k = [(''text'', PyStr (cfg_prefix c @ ep_text p)),
                (''speaker_wav'', PyStr (if_else (ep_speaker_wav p) (g_DEFAULT_SPEAKER_WAV g))),
                (''language'', PyStr (ep_language p)),
                (''file_path'', PyStr (''output/'' @ uuid4_hex e @ ''.wav'')),
                (''speed'', PyFloat (cfg_speed c)),
                (''temperature'', PyFloat (cfg_temperature c)),
                (''top_p'', PyFloat (cfg_top_p c))]"
    unfolding assms(2) by blast
  have "params_in_range k \<longleftrightarrow>
          0.5 \<le> cfg_speed c \<and> cfg_speed c \<le> 2.0 \<and>
          0.1 \<le> cfg_temperature c \<and> cfg_temperature c \<le> 1.0 \<and>
          0.1 \<le> cfg_top_p c \<and> cfg_top_p c \<le> 1.0"
    unfolding k by (simp add: params_in_range_def in_range_float)
  with preset_in_range [OF c] show ?thesis
    by blast
qed

lemma fast_request_calls:
  "calls (speak sample_env (startup False) fast_request) =
     [[(''text'', PyStr ''Hello''),
       (''speaker_wav'', PyStr ''test.wav''),
       (''language'', PyStr ''en''),
       (''file_path'', PyStr ''output/0f8fad5bd9cb469fa16570867728950e.wav''),
       (''speed'', PyFloat 3.0),
       (''temperature'', PyFloat 0.75),
       (''length_penalty'', PyFloat 1.0),
       (''repetition_penalty'', PyFloat 5.0),
       (''top_k'', PyInt 50),
       (''top_p'', PyFloat 0.85)]]"
  by (simp add: speak_def startup_def fast_request_def plain_request_def sample_env_def
      if_else_def DEFAULT_SPEAKER_WAV_def opt_float_def opt_int_def Let_def)

text \<open>
  C2, as the specification states it: every control set that reaches the backend is
  within the documented ranges, and speed 3.0 is rejected or clamped to 2.0. The
  handler of \<open>/speak\<close> does neither: the request is answered with the audio file and
  the backend is called with speed 3.0.
\<close>

theorem speed_three_forwarded:
  "speed fast_request = Some 3.0 \<and>
   reply (speak sample_env (startup False) fast_request) =
     FileResponse ''output/0f8fad5bd9cb469fa16570867728950e.wav''
       ''0f8fad5bd9cb469fa16570867728950e.wav'' ''audio/wav'' \<and>
   calls (speak sample_env (startup False) fast_request) =
     [[(''text'', PyStr ''Hello''),
       (''speaker_wav'', PyStr ''test.wav''),
       (''language'', PyStr ''en''),
       (''file_path'', PyStr ''output/0f8fad5bd9cb469fa16570867728950e.wav''),
       (''speed'', PyFloat 3.0),
       (''temperature'', PyFloat 0.75),
       (''length_penalty'', PyFloat 1.0),
       (''repetition_penalty'', PyFloat 5.0),
       (''top_k'', PyInt 50),
       (''top_p'', PyFloat 0.85)]] \<and>
   \<not> params_in_range (hd (calls (speak sample_env (startup False) fast_request)))"
proof -
  have "speed fast_request = Some 3.0"
    by (simp add: fast_request_def)
  moreover have "reply (speak sample_env (startup False) fast_request) =
     FileResponse ''output/0f8fad5bd9cb469fa16570867728950e.wav''
       ''0f8fad5bd9cb469fa16570867728950e.wav'' ''audio/wav''"
    by (simp add: speak_def startup_def fast_request_def plain_request_def sample_env_def
        if_else_def DEFAULT_SPEAKER_WAV_def basename_def Let_def)
  moreover have "\<not> params_in_range (hd (calls (speak sample_env (startup False) fast_request)))"
    unfolding fast_request_calls by (simp add: params_in_range_def in_range_float)
  ultimately show ?thesis
    using fast_request_calls by (intro conjI)
qed

text \<open>
  C2, amended. The service validates no range. Whatever the control values of the
  request, \<open>/speak\<close> calls the backend once whenever the output directory can be
  created and the speaker file exists, with every control as the request holds it,
  and answers with the audio file when that call returns: no value is rejected and
  none is clamped. So the controls of its backend call are within the documented
  ranges (speed 0.5 to 2.0, temperature and top_p 0.1 to 1.0) exactly when those of
  the request are. Every backend call of \<open>/speak_emotion\<close> has the three controls
  within the documented ranges.
\<close>

theorem controls_forwarded_unvalidated:
  "(let K = [(''text'', PyStr (tts_text r)),
             (''speaker_wav'', PyStr (if_else (tts_speaker_wav r) DEFAULT_SPEAKER_WAV)),
             (''language'', PyStr (tts_language r)),
             (''file_path'', PyStr (''output/'' @ uuid4_hex e @ ''.wav'')),
             (''speed'', opt_float (speed r)),
             (''temperature'', opt_float (temperature r)),
             (''length_penalty'', opt_float (length_penalty r)),
             (''repetition_penalty'', opt_float (repetition_penalty r)),
             (''top_k'', opt_int (top_k r)),
             (''top_p'', opt_float (top_p r))]
    in makedirs e ''output'' = None \<and>
       path_exists e (if_else (tts_speaker_wav r) DEFAULT_SPEAKER_WAV) \<longrightarrow>
         calls (speak e (run ops (startup cuda)) r) = [K] \<and>
         (tts_to_file e K = None \<longrightarrow>
            reply (speak e (run ops (startup cuda)) r) =
              FileResponse (''output/'' @ uuid4_hex e @ ''.wav'')
                (basename (''output/'' @ uuid4_hex e @ ''.wav'')) ''audio/wav'')) \<and>
   (\<forall>k \<in> set (calls (speak e (run ops (startup cuda)) r)).
      map_of k ''speed'' = Some (opt_float (speed r)) \<and>
      map_of k ''temperature'' = Some (opt_float (temperature r)) \<and>
      map_of k ''top_p'' = Some (opt_float (top_p r)) \<and>
      (params_in_range k \<longleftrightarrow> request_in_range r)) \<and>
   (\<forall>k \<in> set (calls (speak_with_emotion e (run ops (startup cuda)) p)).
      params_in_range k)"
proof (intro conjI ballI)
  show "let K = [(''text'', PyStr (tts_text r)),
             (''speaker_wav'', PyStr (if_else (tts_speaker_wav r) DEFAULT_SPEAKER_WAV)),
             (''language'', PyStr (tts_language r)),
             (''file_path'', PyStr (''output/'' @ uuid4_hex e @ ''.wav'')),
             (''speed'', opt_float (speed r)),
             (''temperature'', opt_float (temperature r)),
             (''length_penalty'', opt_float (length_penalty r)),
             (''repetition_penalty'', opt_float (repetition_penalty r)),
             (''top_k'', opt_int (top_k r)),
             (''top_p'', opt_float (top_p r))]
    in makedirs e ''output'' = None \<and>
       path_exists e (if_else (tts_speaker_wav r) DEFAULT_SPEAKER_WAV) \<longrightarrow>
         calls (speak e (run ops (startup cuda)) r) = [K] \<and>
         (tts_to_file e K = None \<longrightarrow>
            reply (speak e (run ops (startup cuda)) r) =
              FileResponse (''output/'' @ uuid4_hex e @ ''.wav'')
                (basename (''output/'' @ uuid4_hex e @ ''.wav'')) ''audio/wav'')"
    by (simp add: speak_def Let_def startup_speaker split: option.split)
next
  fix k assume a: "k \<in> set (calls (speak e (run ops (startup cuda)) r))"
  note k = speak_call_shape [OF a]
  show "map_of k ''speed'' = Some (opt_float (speed r))"
    by (subst k) simp
  show "map_of k ''temperature'' = Some (opt_float (temperature r))"
    by (subst k) simp
  show "map_of k ''top_p'' = Some (opt_float (top_p r))"
    by (subst k) simp
  show "params_in_range k \<longleftrightarrow> request_in_range r"
    by (rule speak_calls_in_range [OF a])
next
  fix k assume "k \<in> set (calls (speak_with_emotion e (run ops (startup cuda)) p))"
  then show "params_in_range k"
    by (rule emotion_calls_in_range) (rule startup_settings)
qed

theorem controls_forwarded_unvalidated_witness:
  "makedirs sample_env ''output'' = None \<and>
   path_exists sample_env (if_else (tts_speaker_wav fast_request) DEFAULT_SPEAKER_WAV) \<and>
   speed fast_request = Some 3.0 \<and>
   calls (speak sample_env (startup False) fast_request) =
     [[(''text'', PyStr ''Hello''),
       (''speaker_wav'', PyStr ''test.wav''),
       (''language'', PyStr ''en''),
       (''file_path'', PyStr ''output/0f8fad5bd9cb469fa16570867728950e.wav''),
       (''speed'', PyFloat 3.0),
       (''temperature'', PyFloat 0.75),
       (''length_penalty'', PyFloat 1.0),
       (''repetition_penalty'', PyFloat 5.0),
       (''top_k'', PyInt 50),
       (''top_p'', PyFloat 0.85)]] \<and>
   reply (speak sample_env (startup False) fast_request) =
     FileResponse ''output/0f8fad5bd9cb469fa16570867728950e.wav''
       (basename ''output/0f8fad5bd9cb469fa16570867728950e.wav'') ''audio/wav'' \<and>
   hd (calls (speak sample_env (startup False) fast_request))
      \<in> set (calls (speak sample_env (startup False) fast_request)) \<and>
   map_of (hd (calls (speak sample_env (startup False) fast_request))) ''speed'' =
      Some (PyFloat 3.0) \<and>
   \<not> request_in_range fast_request \<and>
   hd (calls (speak_with_emotion sample_env (startup False) whisper_hello))
      \<in> set (calls (speak_with_emotion sample_env (startup False) whisper_hello)) \<and>
   params_in_range (hd (calls (speak_with_emotion sample_env (startup False) whisper_hello)))"
proof -
  let ?c = "calls (speak sample_env (startup False) fast_request)"
  let ?d = "calls (speak_with_emotion sample_env (startup False) whisper_hello)"
  have m: "makedirs sample_env ''output'' = None"
    by (simp add: sample_env_def)
  have x: "path_exists sample_env (if_else (tts_speaker_wav fast_request) DEFAULT_SPEAKER_WAV)"
    by (simp add: sample_env_def fast_request_def plain_request_def if_else_def
        DEFAULT_SPEAKER_WAV_def)
  have b: "tts_to_file sample_env k = None" for k
    by (simp add: sample_env_def)
  have u: "uuid4_hex sample_env = ''0f8fad5bd9cb469fa16570867728950e''"
    by (simp add: sample_env_def)
  have fr: "tts_text fast_request = ''Hello''"
    "if_else (tts_speaker_wav fast_request) DEFAULT_SPEAKER_WAV = ''test.wav''"
    "tts_language fast_request = ''en''"
    "opt_float (speed fast_request) = PyFloat 3.0"
    "opt_float (temperature fast_request) = PyFloat 0.75"
    "opt_float (length_penalty fast_request) = PyFloat 1.0"
    "opt_float (repetition_penalty fast_request) = PyFloat 5.0"
    "opt_int (top_k fast_request) = PyInt 50"
    "opt_float (top_p fast_request) = PyFloat 0.85"
    by (simp_all add: fast_request_def plain_request_def if_else_def DEFAULT_SPEAKER_WAV_def
        opt_float_def opt_int_def)
  have c: "hd ?c \<in> set ?c"
    unfolding fast_request_calls by simp
  have "?d \<noteq> []"
    by (simp add: speak_with_emotion_def startup_def whisper_config whisper_hello_def
        sample_env_def if_else_def DEFAULT_SPEAKER_WAV_def Let_def)
  then have d: "hd ?d \<in> set ?d"
    by simp
  have s: "speed fast_request = Some 3.0"
    by (simp add: fast_request_def)
  have n: "\<not> request_in_range fast_request"
    by (simp add: request_in_range_def s opt_float_def in_range_float)
  have g: "run [] (startup False) = startup False"
    by simp
  note a = controls_forwarded_unvalidated
    [of fast_request sample_env "[]" False whisper_hello, unfolded g Let_def fr u]
  have 1: "?c =
     [[(''text'', PyStr ''Hello''),
       (''speaker_wav'', PyStr ''test.wav''),
       (''language'', PyStr ''en''),
       (''file_path'', PyStr ''output/0f8fad5bd9cb469fa16570867728950e.wav''),
       (''speed'', PyFloat 3.0),
       (''temperature'', PyFloat 0.75),
       (''length_penalty'', PyFloat 1.0),
       (''repetition_penalty'', PyFloat 5.0),
       (''top_k'', PyInt 50),
       (''top_p'', PyFloat 0.85)]]"
    using a m x [unfolded fr] by simp
  have 2: "reply (speak sample_env (startup False) fast_request) =
     FileResponse ''output/0f8fad5bd9cb469fa16570867728950e.wav''
       (basename ''output/0f8fad5bd9cb469fa16570867728950e.wav'') ''audio/wav''"
    using a m x [unfolded fr] b by simp
  have 3: "map_of (hd ?c) ''speed'' = Some (PyFloat 3.0)"
    using a c by blast
  have 4: "params_in_range (hd ?d)"
    using a d by blast
  from m x s 1 2 c 3 n d 4 show ?thesis
    by (intro conjI)
qed

end
